theory Spec2Isabelle
  imports Main "HOL-Library.Word" "HOL-Library.AList"
begin

unbundle bit_operations_syntax

section \<open>Python values\<close>

text \<open>
  The SDK's dataclasses are not type checked at run time: \<open>from_dict\<close> stores whatever
  \<open>data.get\<close> returns. Fields filled from the wire therefore hold a dynamically typed
  value. The universe below is what \<open>json\<close> decoding produces (\<open>None\<close>, \<open>bool\<close>,
  \<open>int\<close>, \<open>float\<close>, \<open>str\<close>, \<open>list\<close>, \<open>dict\<close> with string keys) together with the
  three classes the source tests with \<open>isinstance\<close>: \<open>datetime\<close> and the two string
  enumerations. A float is its IEEE-754 double bit pattern. Strings are lists of 8-bit
  characters; case conversion is the ASCII one.

  Names follow the source. A method \<open>C.m\<close> is \<open>C_m\<close>, a leading underscore is
  dropped (\<open>_parse_datetime\<close> is \<open>parse_datetime\<close>, \<open>_request\<close> is
  \<open>LatticeClient_request\<close>), and the enumeration members \<open>SchemaEnforcementMode.NONE\<close>,
  \<open>IndexingMode.ALL\<close> and \<open>IndexingMode.NONE\<close> are \<open>SEM_NONE\<close>, \<open>IM_ALL\<close> and
  \<open>IM_NONE\<close>.
\<close>

datatype SchemaEnforcementMode = SEM_NONE | STRICT | FLEXIBLE | PARTIAL

datatype IndexingMode = IM_ALL | SELECTIVE | IM_NONE

datatype SearchCondition =
    EQUALS | NOT_EQUALS | GREATER_THAN | GREATER_THAN_OR_EQUAL_TO | LESS_THAN
  | LESS_THAN_OR_EQUAL_TO | IS_NULL | IS_NOT_NULL | CONTAINS | STARTS_WITH | ENDS_WITH | LIKE

datatype EnumerationOrder =
    CREATED_ASCENDING | CREATED_DESCENDING | LAST_UPDATE_ASCENDING | LAST_UPDATE_DESCENDING
  | NAME_ASCENDING | NAME_DESCENDING

fun SchemaEnforcementMode_value :: "SchemaEnforcementMode \<Rightarrow> string" where
  "SchemaEnforcementMode_value SEM_NONE = ''None''"
| "SchemaEnforcementMode_value STRICT = ''Strict''"
| "SchemaEnforcementMode_value FLEXIBLE = ''Flexible''"
| "SchemaEnforcementMode_value PARTIAL = ''Partial''"

fun IndexingMode_value :: "IndexingMode \<Rightarrow> string" where
  "IndexingMode_value IM_ALL = ''All''"
| "IndexingMode_value SELECTIVE = ''Selective''"
| "IndexingMode_value IM_NONE = ''None''"

fun SearchCondition_value :: "SearchCondition \<Rightarrow> string" where
  "SearchCondition_value EQUALS = ''Equals''"
| "SearchCondition_value NOT_EQUALS = ''NotEquals''"
| "SearchCondition_value GREATER_THAN = ''GreaterThan''"
| "SearchCondition_value GREATER_THAN_OR_EQUAL_TO = ''GreaterThanOrEqualTo''"
| "SearchCondition_value LESS_THAN = ''LessThan''"
| "SearchCondition_value LESS_THAN_OR_EQUAL_TO = ''LessThanOrEqualTo''"
| "SearchCondition_value IS_NULL = ''IsNull''"
| "SearchCondition_value IS_NOT_NULL = ''IsNotNull''"
| "SearchCondition_value CONTAINS = ''Contains''"
| "SearchCondition_value STARTS_WITH = ''StartsWith''"
| "SearchCondition_value ENDS_WITH = ''EndsWith''"
| "SearchCondition_value LIKE = ''Like''"

fun EnumerationOrder_value :: "EnumerationOrder \<Rightarrow> string" where
  "EnumerationOrder_value CREATED_ASCENDING = ''CreatedAscending''"
| "EnumerationOrder_value CREATED_DESCENDING = ''CreatedDescending''"
| "EnumerationOrder_value LAST_UPDATE_ASCENDING = ''LastUpdateAscending''"
| "EnumerationOrder_value LAST_UPDATE_DESCENDING = ''LastUpdateDescending''"
| "EnumerationOrder_value NAME_ASCENDING = ''NameAscending''"
| "EnumerationOrder_value NAME_DESCENDING = ''NameDescending''"

text \<open>
  \<open>datetime\<close> is a class of the standard library: its value is modelled by its
  components, the UTC offset (when the value is timezone aware) in microseconds.
\<close>

record datetime =
  dt_year :: int
  dt_month :: int
  dt_day :: int
  dt_hour :: int
  dt_minute :: int
  dt_second :: int
  dt_microsecond :: int
  dt_utcoffset :: "int option"

datatype pyval =
    PNone
  | PBool bool
  | PInt int
  | PFloat "64 word"
  | PStr string
  | PList "pyval list"
  | PDict "(string \<times> pyval) list"
  | PDatetime datetime
  | PSchemaMode SchemaEnforcementMode
  | PIndexMode IndexingMode

text \<open>Exceptions of \<open>exceptions.py\<close>, and the built-in ones the modelled code can raise.\<close>

datatype error =
    LatticeException string
  | LatticeConnectionError string
  | LatticeApiError string int
  | LatticeValidationError string "string option"
  | AttributeError
  | TypeError
  | ValueError
  | RecursionError

text \<open>The three specific exceptions are subclasses of \<open>LatticeException\<close>.\<close>

fun is_LatticeException :: "error \<Rightarrow> bool" where
  "is_LatticeException (LatticeException m) = True"
| "is_LatticeException (LatticeConnectionError m) = True"
| "is_LatticeException (LatticeApiError m c) = True"
| "is_LatticeException (LatticeValidationError m f) = True"
| "is_LatticeException AttributeError = False"
| "is_LatticeException TypeError = False"
| "is_LatticeException ValueError = False"
| "is_LatticeException RecursionError = False"

text \<open>
  Truth value testing, as \<open>if x:\<close> and \<open>x or y\<close> do it: \<open>None\<close>, \<open>False\<close>, zero and
  empty containers are false (a float is zero when all bits but the sign are), a
  \<open>datetime\<close> is always true, an enumeration member is a non-empty string.
\<close>

fun truthy :: "pyval \<Rightarrow> bool" where
  "truthy PNone = False"
| "truthy (PBool b) = b"
| "truthy (PInt n) = (n \<noteq> 0)"
| "truthy (PFloat w) = (take_bit 63 w \<noteq> 0)"
| "truthy (PStr s) = (s \<noteq> [])"
| "truthy (PList xs) = (xs \<noteq> [])"
| "truthy (PDict kvs) = (kvs \<noteq> [])"
| "truthy (PDatetime t) = True"
| "truthy (PSchemaMode m) = True"
| "truthy (PIndexMode m) = True"

definition py_or :: "pyval \<Rightarrow> pyval \<Rightarrow> pyval" where
  "py_or a b = (if truthy a then a else b)"

text \<open>\<open>data.get(key, default)\<close> on a dictionary; \<open>data.get(key)\<close> has default \<open>None\<close>.\<close>

definition dict_get :: "(string \<times> pyval) list \<Rightarrow> string \<Rightarrow> pyval \<Rightarrow> pyval" where
  "dict_get data k dflt = (case map_of data k of None \<Rightarrow> dflt | Some v \<Rightarrow> v)"

text \<open>\<open>isinstance(value, str)\<close>: a string, or a member of a string enumeration.\<close>

fun str_of :: "pyval \<Rightarrow> string option" where
  "str_of (PStr s) = Some s"
| "str_of (PSchemaMode m) = Some (SchemaEnforcementMode_value m)"
| "str_of (PIndexMode m) = Some (IndexingMode_value m)"
| "str_of _ = None"

definition lower_char :: "char \<Rightarrow> char" where
  "lower_char c =
     (case map_of (zip ''ABCDEFGHIJKLMNOPQRSTUVWXYZ'' ''abcdefghijklmnopqrstuvwxyz'') c of
        Some l \<Rightarrow> l
      | None \<Rightarrow> c)"

definition upper_char :: "char \<Rightarrow> char" where
  "upper_char c =
     (case map_of (zip ''abcdefghijklmnopqrstuvwxyz'' ''ABCDEFGHIJKLMNOPQRSTUVWXYZ'') c of
        Some u \<Rightarrow> u
      | None \<Rightarrow> c)"

definition lower :: "string \<Rightarrow> string" where
  "lower s = map lower_char s"

definition upper :: "string \<Rightarrow> string" where
  "upper s = map upper_char s"

text \<open>\<open>s.rstrip(c)\<close> for a one-character argument: all trailing occurrences go.\<close>

definition rstrip :: "char \<Rightarrow> string \<Rightarrow> string" where
  "rstrip c s = rev (dropWhile (\<lambda>x. x = c) (rev s))"

section \<open>Parsers of \<open>models.py\<close>\<close>

text \<open>
  \<open>datetime.fromisoformat\<close> is library code: it is a parameter \<open>fromisoformat\<close> of the
  model, \<open>None\<close> standing for the \<open>ValueError\<close> that the source catches. Both branches
  of the source's test for a dot make the same call.
\<close>

fun parse_datetime :: "(string \<Rightarrow> datetime option) \<Rightarrow> pyval \<Rightarrow> datetime option" where
  "parse_datetime fromisoformat PNone = None"
| "parse_datetime fromisoformat (PDatetime t) = Some t"
| "parse_datetime fromisoformat v =
     (case str_of v of
        Some s \<Rightarrow>
          (let value = rstrip (CHR ''Z'') s
           in if CHR ''.'' \<in> set value then fromisoformat value else fromisoformat value)
      | None \<Rightarrow> None)"

fun parse_schema_enforcement_mode :: "pyval \<Rightarrow> SchemaEnforcementMode" where
  "parse_schema_enforcement_mode PNone = SEM_NONE"
| "parse_schema_enforcement_mode (PSchemaMode m) = m"
| "parse_schema_enforcement_mode v =
     (case str_of v of
        Some s \<Rightarrow>
          (let value_lower = lower s
           in if value_lower = ''none'' then SEM_NONE
              else if value_lower = ''strict'' then STRICT
              else if value_lower = ''flexible'' then FLEXIBLE
              else if value_lower = ''partial'' then PARTIAL
              else SEM_NONE)
      | None \<Rightarrow> SEM_NONE)"

fun parse_indexing_mode :: "pyval \<Rightarrow> IndexingMode" where
  "parse_indexing_mode PNone = IM_ALL"
| "parse_indexing_mode (PIndexMode m) = m"
| "parse_indexing_mode v =
     (case str_of v of
        Some s \<Rightarrow>
          (let value_lower = lower s
           in if value_lower = ''all'' then IM_ALL
              else if value_lower = ''selective'' then SELECTIVE
              else if value_lower = ''none'' then IM_NONE
              else IM_ALL)
      | None \<Rightarrow> IM_ALL)"

section \<open>Entities of \<open>models.py\<close>\<close>

text \<open>
  One record per dataclass. Field names carry a prefix for the class, since several
  classes share field names. A field that \<open>from_dict\<close> fills with \<open>data.get\<close> holds a
  \<^typ>\<open>pyval\<close>; a field filled by one of the parsers has the parser's result type.
\<close>

record Collection =
  col_id :: pyval
  col_name :: pyval
  col_description :: pyval
  col_documents_directory :: pyval
  col_labels :: pyval
  col_tags :: pyval
  col_created_utc :: "datetime option"
  col_last_update_utc :: "datetime option"
  col_schema_enforcement_mode :: SchemaEnforcementMode
  col_indexing_mode :: IndexingMode

record Document =
  doc_id :: pyval
  doc_collection_id :: pyval
  doc_schema_id :: pyval
  doc_name :: pyval
  doc_labels :: pyval
  doc_tags :: pyval
  doc_created_utc :: "datetime option"
  doc_last_update_utc :: "datetime option"
  doc_content :: pyval
  doc_content_length :: pyval
  doc_sha256_hash :: pyval

record Schema =
  sch_id :: pyval
  sch_name :: pyval
  sch_hash :: pyval
  sch_created_utc :: "datetime option"
  sch_last_update_utc :: "datetime option"

record SchemaElement =
  se_id :: pyval
  se_schema_id :: pyval
  se_position :: pyval
  se_key :: pyval
  se_data_type :: pyval
  se_nullable :: pyval
  se_created_utc :: "datetime option"
  se_last_update_utc :: "datetime option"

record FieldConstraint =
  fc_id :: pyval
  fc_collection_id :: pyval
  fc_field_path :: pyval
  fc_data_type :: pyval
  fc_required :: pyval
  fc_nullable :: pyval
  fc_regex_pattern :: pyval
  fc_min_value :: pyval
  fc_max_value :: pyval
  fc_min_length :: pyval
  fc_max_length :: pyval
  fc_allowed_values :: pyval
  fc_array_element_type :: pyval
  fc_created_utc :: "datetime option"
  fc_last_update_utc :: "datetime option"

record IndexedField =
  ixf_id :: pyval
  ixf_collection_id :: pyval
  ixf_field_path :: pyval
  ixf_created_utc :: "datetime option"
  ixf_last_update_utc :: "datetime option"

text \<open>
  \<open>SearchFilter\<close> and \<open>SearchQuery\<close> are only ever built by the caller and encoded; they
  have their annotated types (\<open>to_dict\<close> reads \<open>.value\<close> of the enumeration members and
  calls \<open>to_dict\<close> on each filter, which only values of these types support).
\<close>

record SearchFilter =
  sf_field :: string
  sf_condition :: SearchCondition
  sf_value :: "string option"

record SearchQuery =
  sq_collection_id :: string
  sq_filters :: "SearchFilter list option"
  sq_labels :: "string list option"
  sq_tags :: "(string \<times> string) list option"
  sq_max_results :: "int option"
  sq_skip :: "int option"
  sq_ordering :: "EnumerationOrder option"
  sq_include_content :: bool

record SearchResult =
  sr_success :: pyval
  sr_timestamp :: "datetime option"
  sr_max_results :: pyval
  sr_continuation_token :: pyval
  sr_end_of_results :: pyval
  sr_total_records :: pyval
  sr_records_remaining :: pyval
  sr_documents :: "Document option list"

record IndexRebuildResult =
  irr_collection_id :: pyval
  irr_documents_processed :: pyval
  irr_indexes_created :: pyval
  irr_indexes_dropped :: pyval
  irr_values_inserted :: pyval
  irr_duration :: pyval
  irr_duration_ms :: pyval
  irr_errors :: pyval
  irr_success :: pyval

record ResponseContext =
  rc_success :: pyval
  rc_status_code :: pyval
  rc_error_message :: pyval
  rc_data :: pyval
  rc_headers :: pyval
  rc_processing_time_ms :: pyval
  rc_guid :: pyval
  rc_timestamp_utc :: "datetime option"

record IndexTableMapping =
  itm_key :: pyval
  itm_table_name :: pyval

section \<open>Decoding: \<open>from_dict\<close>\<close>

text \<open>
  Each \<open>from_dict\<close> returns \<open>None\<close> for \<open>None\<close>, reads a dictionary with \<open>get\<close>, and
  raises \<open>AttributeError\<close> on any other value, which has no \<open>get\<close> method.
\<close>

fun Collection_from_dict :: "(string \<Rightarrow> datetime option) \<Rightarrow> pyval \<Rightarrow> error + Collection option" where
  "Collection_from_dict fromisoformat PNone = Inr None"
| "Collection_from_dict fromisoformat (PDict data) = Inr (Some
     \<lparr> col_id = dict_get data ''id'' (PStr ''''),
       col_name = dict_get data ''name'' (PStr ''''),
       col_description = dict_get data ''description'' PNone,
       col_documents_directory = dict_get data ''documentsDirectory'' PNone,
       col_labels = py_or (dict_get data ''labels'' (PList [])) (PList []),
       col_tags = py_or (dict_get data ''tags'' (PDict [])) (PDict []),
       col_created_utc = parse_datetime fromisoformat (dict_get data ''createdUtc'' PNone),
       col_last_update_utc = parse_datetime fromisoformat (dict_get data ''lastUpdateUtc'' PNone),
       col_schema_enforcement_mode =
         parse_schema_enforcement_mode (dict_get data ''schemaEnforcementMode'' (PStr ''None'')),
       col_indexing_mode = parse_indexing_mode (dict_get data ''indexingMode'' (PStr ''All'')) \<rparr>)"
| "Collection_from_dict fromisoformat _ = Inl AttributeError"

fun Document_from_dict :: "(string \<Rightarrow> datetime option) \<Rightarrow> pyval \<Rightarrow> error + Document option" where
  "Document_from_dict fromisoformat PNone = Inr None"
| "Document_from_dict fromisoformat (PDict data) = Inr (Some
     \<lparr> doc_id = dict_get data ''id'' (PStr ''''),
       doc_collection_id = dict_get data ''collectionId'' (PStr ''''),
       doc_schema_id = dict_get data ''schemaId'' (PStr ''''),
       doc_name = dict_get data ''name'' PNone,
       doc_labels = py_or (dict_get data ''labels'' (PList [])) (PList []),
       doc_tags = py_or (dict_get data ''tags'' (PDict [])) (PDict []),
       doc_created_utc = parse_datetime fromisoformat (dict_get data ''createdUtc'' PNone),
       doc_last_update_utc = parse_datetime fromisoformat (dict_get data ''lastUpdateUtc'' PNone),
       doc_content = dict_get data ''content'' PNone,
       doc_content_length = dict_get data ''contentLength'' (PInt 0),
       doc_sha256_hash = dict_get data ''sha256Hash'' PNone \<rparr>)"
| "Document_from_dict fromisoformat _ = Inl AttributeError"

fun Schema_from_dict :: "(string \<Rightarrow> datetime option) \<Rightarrow> pyval \<Rightarrow> error + Schema option" where
  "Schema_from_dict fromisoformat PNone = Inr None"
| "Schema_from_dict fromisoformat (PDict data) = Inr (Some
     \<lparr> sch_id = dict_get data ''id'' (PStr ''''),
       sch_name = dict_get data ''name'' PNone,
       sch_hash = dict_get data ''hash'' PNone,
       sch_created_utc = parse_datetime fromisoformat (dict_get data ''createdUtc'' PNone),
       sch_last_update_utc = parse_datetime fromisoformat (dict_get data ''lastUpdateUtc'' PNone) \<rparr>)"
| "Schema_from_dict fromisoformat _ = Inl AttributeError"

fun SchemaElement_from_dict :: "(string \<Rightarrow> datetime option) \<Rightarrow> pyval \<Rightarrow> error + SchemaElement option" where
  "SchemaElement_from_dict fromisoformat PNone = Inr None"
| "SchemaElement_from_dict fromisoformat (PDict data) = Inr (Some
     \<lparr> se_id = dict_get data ''id'' (PStr ''''),
       se_schema_id = dict_get data ''schemaId'' (PStr ''''),
       se_position = dict_get data ''position'' (PInt 0),
       se_key = dict_get data ''key'' (PStr ''''),
       se_data_type = dict_get data ''dataType'' (PStr ''''),
       se_nullable = dict_get data ''nullable'' (PBool False),
       se_created_utc = parse_datetime fromisoformat (dict_get data ''createdUtc'' PNone),
       se_last_update_utc = parse_datetime fromisoformat (dict_get data ''lastUpdateUtc'' PNone) \<rparr>)"
| "SchemaElement_from_dict fromisoformat _ = Inl AttributeError"

fun FieldConstraint_from_dict :: "(string \<Rightarrow> datetime option) \<Rightarrow> pyval \<Rightarrow> error + FieldConstraint option" where
  "FieldConstraint_from_dict fromisoformat PNone = Inr None"
| "FieldConstraint_from_dict fromisoformat (PDict data) = Inr (Some
     \<lparr> fc_id = dict_get data ''id'' (PStr ''''),
       fc_collection_id = dict_get data ''collectionId'' (PStr ''''),
       fc_field_path = dict_get data ''fieldPath'' (PStr ''''),
       fc_data_type = dict_get data ''dataType'' PNone,
       fc_required = dict_get data ''required'' (PBool False),
       fc_nullable = dict_get data ''nullable'' (PBool True),
       fc_regex_pattern = dict_get data ''regexPattern'' PNone,
       fc_min_value = dict_get data ''minValue'' PNone,
       fc_max_value = dict_get data ''maxValue'' PNone,
       fc_min_length = dict_get data ''minLength'' PNone,
       fc_max_length = dict_get data ''maxLength'' PNone,
       fc_allowed_values = dict_get data ''allowedValues'' PNone,
       fc_array_element_type = dict_get data ''arrayElementType'' PNone,
       fc_created_utc = parse_datetime fromisoformat (dict_get data ''createdUtc'' PNone),
       fc_last_update_utc = parse_datetime fromisoformat (dict_get data ''lastUpdateUtc'' PNone) \<rparr>)"
| "FieldConstraint_from_dict fromisoformat _ = Inl AttributeError"

fun IndexedField_from_dict :: "(string \<Rightarrow> datetime option) \<Rightarrow> pyval \<Rightarrow> error + IndexedField option" where
  "IndexedField_from_dict fromisoformat PNone = Inr None"
| "IndexedField_from_dict fromisoformat (PDict data) = Inr (Some
     \<lparr> ixf_id = dict_get data ''id'' (PStr ''''),
       ixf_collection_id = dict_get data ''collectionId'' (PStr ''''),
       ixf_field_path = dict_get data ''fieldPath'' (PStr ''''),
       ixf_created_utc = parse_datetime fromisoformat (dict_get data ''createdUtc'' PNone),
       ixf_last_update_utc = parse_datetime fromisoformat (dict_get data ''lastUpdateUtc'' PNone) \<rparr>)"
| "IndexedField_from_dict fromisoformat _ = Inl AttributeError"

text \<open>
  Iterating a value, as the list comprehension of \<open>SearchResult.from_dict\<close> does: a list
  yields its elements, a string its characters, a dictionary its keys; the other values
  are not iterable.
\<close>

fun py_iter :: "pyval \<Rightarrow> error + pyval list" where
  "py_iter (PList xs) = Inr xs"
| "py_iter (PDict kvs) = Inr (map (\<lambda>kv. PStr (fst kv)) kvs)"
| "py_iter PNone = Inl TypeError"
| "py_iter (PBool b) = Inl TypeError"
| "py_iter (PInt n) = Inl TypeError"
| "py_iter (PFloat w) = Inl TypeError"
| "py_iter (PDatetime t) = Inl TypeError"
| "py_iter v = (case str_of v of Some s \<Rightarrow> Inr (map (\<lambda>c. PStr [c]) s) | None \<Rightarrow> Inl TypeError)"

text \<open>A comprehension \<open>[f(d) for d in xs]\<close>: the first call that raises ends it.\<close>

fun map_raise :: "('a \<Rightarrow> error + 'b) \<Rightarrow> 'a list \<Rightarrow> error + 'b list" where
  "map_raise f [] = Inr []"
| "map_raise f (x # xs) =
     (case f x of
        Inl e \<Rightarrow> Inl e
      | Inr y \<Rightarrow> (case map_raise f xs of Inl e \<Rightarrow> Inl e | Inr ys \<Rightarrow> Inr (y # ys)))"

definition SearchResult_documents :: "(string \<Rightarrow> datetime option) \<Rightarrow> (string \<times> pyval) list \<Rightarrow> error + Document option list" where
  "SearchResult_documents fromisoformat data =
     (if truthy (dict_get data ''documents'' PNone)
      then (case py_iter (dict_get data ''documents'' PNone) of
              Inl e \<Rightarrow> Inl e
            | Inr ds \<Rightarrow> map_raise (Document_from_dict fromisoformat) ds)
      else Inr [])"

definition SearchResult_timestamp :: "(string \<Rightarrow> datetime option) \<Rightarrow> (string \<times> pyval) list \<Rightarrow> datetime option" where
  "SearchResult_timestamp fromisoformat data =
     (if truthy (dict_get data ''timestamp'' PNone)
      then (case dict_get data ''timestamp'' PNone of
              PDict ts \<Rightarrow> parse_datetime fromisoformat (dict_get ts ''utc'' PNone)
            | ts \<Rightarrow> parse_datetime fromisoformat ts)
      else None)"

fun SearchResult_from_dict :: "(string \<Rightarrow> datetime option) \<Rightarrow> pyval \<Rightarrow> error + SearchResult option" where
  "SearchResult_from_dict fromisoformat PNone = Inr None"
| "SearchResult_from_dict fromisoformat (PDict data) =
     (case SearchResult_documents fromisoformat data of
        Inl e \<Rightarrow> Inl e
      | Inr docs \<Rightarrow> Inr (Some
          \<lparr> sr_success = dict_get data ''success'' (PBool False),
            sr_timestamp = SearchResult_timestamp fromisoformat data,
            sr_max_results = dict_get data ''maxResults'' PNone,
            sr_continuation_token = dict_get data ''continuationToken'' PNone,
            sr_end_of_results = dict_get data ''endOfResults'' (PBool False),
            sr_total_records = dict_get data ''totalRecords'' (PInt 0),
            sr_records_remaining = dict_get data ''recordsRemaining'' (PInt 0),
            sr_documents = docs \<rparr>))"
| "SearchResult_from_dict fromisoformat _ = Inl AttributeError"

fun IndexRebuildResult_from_dict :: "pyval \<Rightarrow> error + IndexRebuildResult option" where
  "IndexRebuildResult_from_dict PNone = Inr None"
| "IndexRebuildResult_from_dict (PDict data) = Inr (Some
     \<lparr> irr_collection_id = dict_get data ''collectionId'' (PStr ''''),
       irr_documents_processed = dict_get data ''documentsProcessed'' (PInt 0),
       irr_indexes_created = py_or (dict_get data ''indexesCreated'' (PList [])) (PList []),
       irr_indexes_dropped = py_or (dict_get data ''indexesDropped'' (PList [])) (PList []),
       irr_values_inserted = dict_get data ''valuesInserted'' (PInt 0),
       irr_duration = dict_get data ''duration'' PNone,
       irr_duration_ms = dict_get data ''durationMs'' (PInt 0),
       irr_errors = py_or (dict_get data ''errors'' (PList [])) (PList []),
       irr_success = dict_get data ''success'' (PBool False) \<rparr>)"
| "IndexRebuildResult_from_dict _ = Inl AttributeError"

fun ResponseContext_from_dict :: "(string \<Rightarrow> datetime option) \<Rightarrow> pyval \<Rightarrow> error + ResponseContext option" where
  "ResponseContext_from_dict fromisoformat PNone = Inr None"
| "ResponseContext_from_dict fromisoformat (PDict data) = Inr (Some
     \<lparr> rc_success = dict_get data ''success'' (PBool False),
       rc_status_code = dict_get data ''statusCode'' (PInt 0),
       rc_error_message = dict_get data ''errorMessage'' PNone,
       rc_data = dict_get data ''data'' PNone,
       rc_headers = py_or (dict_get data ''headers'' (PDict [])) (PDict []),
       rc_processing_time_ms = dict_get data ''processingTimeMs'' (PInt 0),
       rc_guid = dict_get data ''guid'' PNone,
       rc_timestamp_utc = parse_datetime fromisoformat (dict_get data ''timestampUtc'' PNone) \<rparr>)"
| "ResponseContext_from_dict fromisoformat _ = Inl AttributeError"

fun IndexTableMapping_from_dict :: "pyval \<Rightarrow> error + IndexTableMapping option" where
  "IndexTableMapping_from_dict PNone = Inr None"
| "IndexTableMapping_from_dict (PDict data) = Inr (Some
     \<lparr> itm_key = dict_get data ''key'' (PStr ''''),
       itm_table_name = dict_get data ''tableName'' (PStr '''') \<rparr>)"
| "IndexTableMapping_from_dict _ = Inl AttributeError"

section \<open>Encoding: \<open>to_dict\<close>\<close>

text \<open>
  A wire object under construction is an association list; \<open>result[k] = v\<close> is
  \<^const>\<open>AList.update\<close>, and a key is present when \<^const>\<open>map_of\<close> finds it.
\<close>

text \<open>
  The caller's arguments have their annotated types. An argument of type \<open>Optional[T]\<close>
  is an option; as a Python value it is \<open>None\<close> or the value it holds.
\<close>

fun py_opt :: "('a \<Rightarrow> pyval) \<Rightarrow> 'a option \<Rightarrow> pyval" where
  "py_opt f None = PNone"
| "py_opt f (Some x) = f x"

text \<open>The statement \<open>if c: result[k] = v\<close>.\<close>

definition set_if :: "bool \<Rightarrow> string \<Rightarrow> pyval \<Rightarrow> (string \<times> pyval) list \<Rightarrow> (string \<times> pyval) list" where
  "set_if c k v result = (if c then AList.update k v result else result)"

definition FieldConstraint_to_dict :: "FieldConstraint \<Rightarrow> (string \<times> pyval) list" where
  "FieldConstraint_to_dict self =
     (let result = [(''fieldPath'', fc_field_path self)];
          result = set_if (truthy (fc_data_type self)) ''dataType'' (fc_data_type self) result;
          result = set_if (truthy (fc_required self)) ''required'' (fc_required self) result;
          result = set_if (\<not> truthy (fc_nullable self)) ''nullable'' (fc_nullable self) result;
          result = set_if (truthy (fc_regex_pattern self)) ''regexPattern'' (fc_regex_pattern self) result;
          result = set_if (fc_min_value self \<noteq> PNone) ''minValue'' (fc_min_value self) result;
          result = set_if (fc_max_value self \<noteq> PNone) ''maxValue'' (fc_max_value self) result;
          result = set_if (fc_min_length self \<noteq> PNone) ''minLength'' (fc_min_length self) result;
          result = set_if (fc_max_length self \<noteq> PNone) ''maxLength'' (fc_max_length self) result;
          result = set_if (truthy (fc_allowed_values self)) ''allowedValues''
                     (fc_allowed_values self) result;
          result = set_if (truthy (fc_array_element_type self)) ''arrayElementType''
                     (fc_array_element_type self) result
      in result)"

definition SearchFilter_to_dict :: "SearchFilter \<Rightarrow> (string \<times> pyval) list" where
  "SearchFilter_to_dict self =
     (let result = [(''field'', PStr (sf_field self)),
                    (''condition'', PStr (SearchCondition_value (sf_condition self)))];
          result = set_if (sf_value self \<noteq> None) ''value'' (py_opt PStr (sf_value self)) result
      in result)"

text \<open>Truth value of an optional string, list or dictionary: set and not empty.\<close>

fun truthy_opt :: "'a list option \<Rightarrow> bool" where
  "truthy_opt None = False"
| "truthy_opt (Some xs) = (xs \<noteq> [])"

text \<open>A dictionary of strings and a list of strings, as Python values.\<close>

definition str_dict :: "(string \<times> string) list \<Rightarrow> pyval" where
  "str_dict kvs = PDict (map (\<lambda>kv. (fst kv, PStr (snd kv))) kvs)"

definition str_list :: "string list \<Rightarrow> pyval" where
  "str_list xs = PList (map PStr xs)"

text \<open>
  An enumeration member is a string; \<open>if self.ordering:\<close> tests that it is set and
  that its value is not empty.
\<close>

definition SearchQuery_to_dict :: "SearchQuery \<Rightarrow> (string \<times> pyval) list" where
  "SearchQuery_to_dict self =
     (let result = [];
          result = set_if (truthy_opt (sq_filters self)) ''filters''
                     (py_opt (\<lambda>fs. PList (map (\<lambda>f. PDict (SearchFilter_to_dict f)) fs))
                        (sq_filters self))
                     result;
          result = set_if (truthy_opt (sq_labels self)) ''labels''
                     (py_opt str_list (sq_labels self)) result;
          result = set_if (truthy_opt (sq_tags self)) ''tags''
                     (py_opt str_dict (sq_tags self)) result;
          result = set_if (sq_max_results self \<noteq> None) ''maxResults''
                     (py_opt PInt (sq_max_results self)) result;
          result = set_if (sq_skip self \<noteq> None) ''skip'' (py_opt PInt (sq_skip self)) result;
          result = set_if (truthy_opt (map_option EnumerationOrder_value (sq_ordering self)))
                     ''ordering''
                     (py_opt (\<lambda>ordering'. PStr (EnumerationOrder_value ordering')) (sq_ordering self))
                     result;
          result = set_if (sq_include_content self) ''includeContent''
                     (PBool (sq_include_content self)) result
      in result)"

section \<open>Transport: \<open>LatticeClient._request\<close>\<close>

text \<open>
  The \<open>requests\<close> session is library code. A request is the arguments of
  \<open>session.request\<close>; its outcome is a response or one of the exceptions the source
  handles. Of a response the source reads \<open>status_code\<close>, \<open>content\<close>, \<open>text\<close>,
  \<open>headers\<close> and \<open>json()\<close>. The client's state is the sequence of requests sent so far.

  The call \<open>response.json()\<close> returns the decoded value or raises. What it raises decides
  which handler of \<open>_request\<close> sees it:
  \<^item> \<open>json.JSONDecodeError\<close>, the exception of the standard decoder, which the inner
    handler catches;
  \<^item> the \<open>JSONDecodeError\<close> of \<open>requests\<close> when it is built on another decoder
    (\<open>simplejson\<close>): a \<open>RequestException\<close> that is not a \<open>json.JSONDecodeError\<close>, so
    the inner handler misses it and the outer \<open>RequestException\<close> handler takes it;
  \<^item> a plain \<open>ValueError\<close> (an integer literal beyond the interpreter's digit limit) or
    a \<open>RecursionError\<close> (nesting beyond the recursion limit), which no handler of
    \<open>_request\<close> catches.
\<close>

record http_request =
  req_method :: string
  req_url :: string
  req_json :: "pyval option"
  req_params :: "(string \<times> string) list option"
  req_timeout :: int

datatype json_outcome =
    JsonValue pyval
  | RaiseJSONDecodeError
  | RaiseInvalidJSON string
  | RaiseValueError
  | RaiseRecursionError

record http_response =
  resp_status_code :: int
  resp_content :: string
  resp_text :: string
  resp_json :: json_outcome
  resp_headers :: "(string \<times> string) list"

datatype http_outcome =
    Response http_response
  | RaiseConnectionError
  | RaiseTimeout
  | RaiseRequestException string

record LatticeClient =
  lc_base_url :: string
  lc_timeout :: int
  lc_session :: "http_request \<Rightarrow> http_outcome"

definition LatticeClient_init :: "(http_request \<Rightarrow> http_outcome) \<Rightarrow> string \<Rightarrow> int \<Rightarrow> LatticeClient" where
  "LatticeClient_init session base_url timeout =
     \<lparr> lc_base_url = rstrip (CHR ''/'') base_url, lc_timeout = timeout, lc_session = session \<rparr>"

text \<open>The dataclass defaults of \<open>ResponseContext\<close>, for the calls that name only some fields.\<close>

definition ResponseContext_default :: ResponseContext where
  "ResponseContext_default =
     \<lparr> rc_success = PBool False, rc_status_code = PInt 0, rc_error_message = PNone,
       rc_data = PNone, rc_headers = PDict [], rc_processing_time_ms = PInt 0,
       rc_guid = PNone, rc_timestamp_utc = None \<rparr>"

definition LatticeClient_request ::
  "(string \<Rightarrow> datetime option) \<Rightarrow> LatticeClient \<Rightarrow> string \<Rightarrow> string \<Rightarrow> pyval option
     \<Rightarrow> (string \<times> string) list option \<Rightarrow> http_request list
     \<Rightarrow> (error + ResponseContext option) \<times> http_request list" where
  "LatticeClient_request fromisoformat self method path data params sent =
     (let url = lc_base_url self @ path;
          req = \<lparr> req_method = method, req_url = url, req_json = data, req_params = params,
                  req_timeout = lc_timeout self \<rparr>
      in (case lc_session self req of
            RaiseConnectionError \<Rightarrow>
              Inl (LatticeConnectionError (''Failed to connect to '' @ url))
          | RaiseTimeout \<Rightarrow>
              Inl (LatticeConnectionError (''Request to '' @ url @ '' timed out''))
          | RaiseRequestException e \<Rightarrow>
              Inl (LatticeException (''Request failed: '' @ e))
          | Response response \<Rightarrow>
              if upper method = ''HEAD''
              then Inr (Some (ResponseContext_default
                     \<lparr> rc_success := PBool (resp_status_code response = 200),
                       rc_status_code := PInt (resp_status_code response),
                       rc_headers := str_dict (resp_headers response) \<rparr>))
              else if resp_content response \<noteq> []
              then (case resp_json response of
                      JsonValue response_data \<Rightarrow>
                        ResponseContext_from_dict fromisoformat response_data
                    | RaiseJSONDecodeError \<Rightarrow>
                        Inr (Some (ResponseContext_default
                          \<lparr> rc_success := PBool (resp_status_code response < 400),
                            rc_status_code := PInt (resp_status_code response),
                            rc_data := PStr (resp_text response),
                            rc_headers := str_dict (resp_headers response) \<rparr>))
                    | RaiseInvalidJSON e \<Rightarrow> Inl (LatticeException (''Request failed: '' @ e))
                    | RaiseValueError \<Rightarrow> Inl ValueError
                    | RaiseRecursionError \<Rightarrow> Inl RecursionError)
              else Inr (Some (ResponseContext_default
                     \<lparr> rc_success := PBool (resp_status_code response < 400),
                       rc_status_code := PInt (resp_status_code response),
                       rc_headers := str_dict (resp_headers response) \<rparr>)),
          sent @ [req]))"

text \<open>
  \<open>health_check\<close> catches \<open>LatticeException\<close> and its subclasses; reading \<open>.success\<close> of
  \<open>None\<close> raises \<open>AttributeError\<close> inside the \<open>try\<close>, which that handler does not catch,
  and neither does it catch the built-in exceptions that \<open>_request\<close> lets through.
\<close>

definition LatticeClient_health_check ::
  "(string \<Rightarrow> datetime option) \<Rightarrow> LatticeClient \<Rightarrow> http_request list
     \<Rightarrow> (error + pyval) \<times> http_request list" where
  "LatticeClient_health_check fromisoformat self sent =
     (case LatticeClient_request fromisoformat self ''GET'' ''/v1.0/health'' None None sent of
        (Inl e, sent') \<Rightarrow> (if is_LatticeException e then Inr (PBool False) else Inl e, sent')
      | (Inr None, sent') \<Rightarrow> (Inl AttributeError, sent')
      | (Inr (Some response), sent') \<Rightarrow> (Inr (rc_success response), sent'))"

section \<open>Operation groups\<close>

definition CollectionMethods_create_data ::
  "string \<Rightarrow> string option \<Rightarrow> string option \<Rightarrow> string list option
     \<Rightarrow> (string \<times> string) list option \<Rightarrow> SchemaEnforcementMode \<Rightarrow> FieldConstraint list option
     \<Rightarrow> IndexingMode \<Rightarrow> string list option \<Rightarrow> (string \<times> pyval) list" where
  "CollectionMethods_create_data name description documents_directory labels tags
       schema_enforcement_mode field_constraints indexing_mode indexed_fields =
     (let data = [(''name'', PStr name)];
          data = set_if (truthy_opt description) ''description'' (py_opt PStr description) data;
          data = set_if (truthy_opt documents_directory) ''documentsDirectory''
                   (py_opt PStr documents_directory) data;
          data = set_if (truthy_opt labels) ''labels'' (py_opt str_list labels) data;
          data = set_if (truthy_opt tags) ''tags'' (py_opt str_dict tags) data;
          data = set_if (schema_enforcement_mode \<noteq> SEM_NONE) ''schemaEnforcementMode''
                   (PStr (SchemaEnforcementMode_value schema_enforcement_mode)) data;
          data = set_if (truthy_opt field_constraints) ''fieldConstraints''
                   (py_opt (\<lambda>cs. PList (map (\<lambda>c. PDict (FieldConstraint_to_dict c)) cs))
                      field_constraints)
                   data;
          data = set_if (indexing_mode \<noteq> IM_ALL) ''indexingMode''
                   (PStr (IndexingMode_value indexing_mode)) data;
          data = set_if (truthy_opt indexed_fields) ''indexedFields''
                   (py_opt str_list indexed_fields) data
      in data)"

text \<open>
  \<open>create\<close> builds the body, makes one call to the transport, and reads \<open>.success\<close>
  and \<open>.data\<close> of what comes back (\<open>AttributeError\<close> when that is \<open>None\<close>).
\<close>

definition CollectionMethods_create ::
  "(string \<Rightarrow> datetime option) \<Rightarrow> LatticeClient \<Rightarrow> string \<Rightarrow> string option \<Rightarrow> string option
     \<Rightarrow> string list option \<Rightarrow> (string \<times> string) list option \<Rightarrow> SchemaEnforcementMode
     \<Rightarrow> FieldConstraint list option \<Rightarrow> IndexingMode \<Rightarrow> string list option
     \<Rightarrow> http_request list \<Rightarrow> (error + Collection option) \<times> http_request list" where
  "CollectionMethods_create fromisoformat client name description documents_directory labels tags
       schema_enforcement_mode field_constraints indexing_mode indexed_fields sent =
     (let data = CollectionMethods_create_data name description documents_directory labels tags
                   schema_enforcement_mode field_constraints indexing_mode indexed_fields
      in (case LatticeClient_request fromisoformat client ''PUT'' ''/v1.0/collections''
                 (Some (PDict data)) None sent of
            (Inl e, sent') \<Rightarrow> (Inl e, sent')
          | (Inr None, sent') \<Rightarrow> (Inl AttributeError, sent')
          | (Inr (Some response), sent') \<Rightarrow>
              (if truthy (rc_success response) \<and> truthy (rc_data response)
               then Collection_from_dict fromisoformat (rc_data response)
               else Inr None, sent')))"

definition SearchMethods_search ::
  "(string \<Rightarrow> datetime option) \<Rightarrow> LatticeClient \<Rightarrow> SearchQuery \<Rightarrow> http_request list
     \<Rightarrow> (error + SearchResult option) \<times> http_request list" where
  "SearchMethods_search fromisoformat client query sent =
     (case LatticeClient_request fromisoformat client ''POST''
             (''/v1.0/collections/'' @ sq_collection_id query @ ''/documents/search'')
             (Some (PDict (SearchQuery_to_dict query))) None sent of
        (Inl e, sent') \<Rightarrow> (Inl e, sent')
      | (Inr None, sent') \<Rightarrow> (Inl AttributeError, sent')
      | (Inr (Some response), sent') \<Rightarrow>
          (if truthy (rc_success response) \<and> truthy (rc_data response)
           then SearchResult_from_dict fromisoformat (rc_data response)
           else Inr None, sent'))"

definition SearchMethods_enumerate ::
  "(string \<Rightarrow> datetime option) \<Rightarrow> LatticeClient \<Rightarrow> SearchQuery \<Rightarrow> http_request list
     \<Rightarrow> (error + SearchResult option) \<times> http_request list" where
  "SearchMethods_enumerate fromisoformat client query sent =
     SearchMethods_search fromisoformat client query sent"

section \<open>Sample instances of the library parameters\<close>

text \<open>
  Concrete instances of the two library parameters, used to evaluate the model at
  concrete inputs: a date parser that knows one timestamp and rejects every other
  string, and a session that answers every request with the same outcome.
\<close>

definition sample_datetime :: datetime where
  "sample_datetime =
     \<lparr> dt_year = 2024, dt_month = 1, dt_day = 15, dt_hour = 10, dt_minute = 30,
       dt_second = 0, dt_microsecond = 0, dt_utcoffset = None \<rparr>"

definition sample_fromisoformat :: "string \<Rightarrow> datetime option" where
  "sample_fromisoformat s = (if s = ''2024-01-15T10:30:00'' then Some sample_datetime else None)"

definition session_answering :: "http_outcome \<Rightarrow> http_request \<Rightarrow> http_outcome" where
  "session_answering outcome req = outcome"

definition sample_client :: "http_outcome \<Rightarrow> LatticeClient" where
  "sample_client outcome = LatticeClient_init (session_answering outcome) ''http://localhost:8000/'' 30"

section \<open>Well-formed search results on the wire\<close>

text \<open>
  The \<open>documents\<close> entry of a search result on the wire is well formed when it is absent,
  false in Python's sense (\<open>null\<close>, an empty list), or a list each of whose elements is
  an object or \<open>null\<close>. This is the hypothesis under which decoding a search result is
  stated; it says nothing about which fields of the object are present.
\<close>

fun decodable_document :: "pyval \<Rightarrow> bool" where
  "decodable_document PNone = True"
| "decodable_document (PDict d) = True"
| "decodable_document v = False"

definition documents_decodable :: "(string \<times> pyval) list \<Rightarrow> bool" where
  "documents_decodable data =
     (case map_of data ''documents'' of
        None \<Rightarrow> True
      | Some (PList ds) \<Rightarrow> list_all decodable_document ds
      | Some v \<Rightarrow> \<not> truthy v)"

section \<open>Basic facts\<close>

lemma map_of_set_if:
  "map_of (set_if c k v result) k' = (if c \<and> k' = k then Some v else map_of result k')"
  by (simp add: set_if_def update_conv')

lemma from_dict_errors:
  "Collection_from_dict fi v = Inl e \<Longrightarrow> e = AttributeError"
  "ResponseContext_from_dict fi v = Inl e \<Longrightarrow> e = AttributeError"
  "Document_from_dict fi v = Inl e \<Longrightarrow> e = AttributeError"
  by (cases v; simp)+

lemma LatticeClient_request_sent:
  "snd (LatticeClient_request fi self method path data params sent) =
     sent @ [\<lparr> req_method = method, req_url = lc_base_url self @ path, req_json = data,
               req_params = params, req_timeout = lc_timeout self \<rparr>]"
  by (simp add: LatticeClient_request_def Let_def)

lemma LatticeClient_request_errors:
  assumes "fst (LatticeClient_request fi self method path data params sent) = Inl e"
  shows "e \<noteq> LatticeValidationError m f"
  using assms from_dict_errors(2)
  by (auto simp: LatticeClient_request_def Let_def
      split: http_outcome.splits if_splits json_outcome.splits)

lemma CollectionMethods_create_sent:
  "snd (CollectionMethods_create fi client name description documents_directory labels tags
          schema_enforcement_mode field_constraints indexing_mode indexed_fields sent) =
     sent @ [\<lparr> req_method = ''PUT'', req_url = lc_base_url client @ ''/v1.0/collections'',
               req_json = Some (PDict (CollectionMethods_create_data name description
                 documents_directory labels tags schema_enforcement_mode field_constraints
                 indexing_mode indexed_fields)),
               req_params = None, req_timeout = lc_timeout client \<rparr>]"
proof -
  let ?data = "CollectionMethods_create_data name description documents_directory labels tags
     schema_enforcement_mode field_constraints indexing_mode indexed_fields"
  let ?r = "LatticeClient_request fi client ''PUT'' ''/v1.0/collections'' (Some (PDict ?data)) None sent"
  have "snd (CollectionMethods_create fi client name description documents_directory labels tags
          schema_enforcement_mode field_constraints indexing_mode indexed_fields sent) = snd ?r"
    unfolding CollectionMethods_create_def Let_def
    by (cases ?r) (simp split: sum.splits option.splits)
  then show ?thesis by (simp add: LatticeClient_request_sent)
qed

lemma upper_HEAD:
  "upper ''HEAD'' = ''HEAD''" "upper ''head'' = ''HEAD''" "upper ''GET'' \<noteq> ''HEAD''"
  by (simp_all add: upper_def upper_char_def)

lemma sample_client_simps:
  "lc_base_url (sample_client outcome) = ''http://localhost:8000''"
  "lc_timeout (sample_client outcome) = 30"
  "lc_session (sample_client outcome) req = outcome"
  by (simp_all add: sample_client_def LatticeClient_init_def rstrip_def session_answering_def)

section \<open>Transport envelopes\<close>

text \<open>
  What \<open>_request\<close> returns for a response in the cases it handles: for \<open>HEAD\<close> (in any
  letter case, since the source compares \<open>method.upper()\<close>) an envelope whose \<open>success\<close>
  is \<open>status_code == 200\<close> and whose \<open>data\<close> is \<open>None\<close>; for any other method and an
  empty body, \<open>success = status_code < 400\<close> and \<open>data = None\<close>; for any other method and
  a non-empty body on which \<open>json()\<close> raises \<open>json.JSONDecodeError\<close>,
  \<open>success = status_code < 400\<close> and \<open>data\<close> equal to the response text.
\<close>

lemma LatticeClient_request_envelope:
  assumes "lc_session self \<lparr> req_method = method, req_url = lc_base_url self @ path,
             req_json = data, req_params = params, req_timeout = lc_timeout self \<rparr>
           = Response response"
  shows "(upper method = ''HEAD'' \<longrightarrow>
            (\<exists>envelope.
               fst (LatticeClient_request fi self method path data params sent) = Inr (Some envelope) \<and>
               rc_success envelope = PBool (resp_status_code response = 200) \<and>
               rc_data envelope = PNone)) \<and>
         (upper method \<noteq> ''HEAD'' \<and> resp_content response = [] \<longrightarrow>
            (\<exists>envelope.
               fst (LatticeClient_request fi self method path data params sent) = Inr (Some envelope) \<and>
               rc_success envelope = PBool (resp_status_code response < 400) \<and>
               rc_data envelope = PNone)) \<and>
         (upper method \<noteq> ''HEAD'' \<and> resp_content response \<noteq> [] \<and>
          resp_json response = RaiseJSONDecodeError \<longrightarrow>
            (\<exists>envelope.
               fst (LatticeClient_request fi self method path data params sent) = Inr (Some envelope) \<and>
               rc_success envelope = PBool (resp_status_code response < 400) \<and>
               rc_data envelope = PStr (resp_text response)))"
  using assms
  by (simp add: LatticeClient_request_def Let_def ResponseContext_default_def)

text \<open>
  A non-empty body on which \<open>json()\<close> raises anything else gives no envelope: the
  \<open>JSONDecodeError\<close> of a \<open>requests\<close> built on another decoder becomes a
  \<open>LatticeException\<close>, and a \<open>ValueError\<close> or \<open>RecursionError\<close> leaves \<open>_request\<close> as it is.
\<close>

lemma LatticeClient_request_json_raises:
  assumes "lc_session self \<lparr> req_method = method, req_url = lc_base_url self @ path,
             req_json = data, req_params = params, req_timeout = lc_timeout self \<rparr>
           = Response response"
    and "upper method \<noteq> ''HEAD''" and "resp_content response \<noteq> []"
  shows "resp_json response = RaiseInvalidJSON e \<Longrightarrow>
           fst (LatticeClient_request fi self method path data params sent)
             = Inl (LatticeException (''Request failed: '' @ e))"
    and "resp_json response = RaiseValueError \<Longrightarrow>
           fst (LatticeClient_request fi self method path data params sent) = Inl ValueError"
    and "resp_json response = RaiseRecursionError \<Longrightarrow>
           fst (LatticeClient_request fi self method path data params sent) = Inl RecursionError"
  using assms
  by (simp_all add: LatticeClient_request_def Let_def)

text \<open>
  Claim C4 says that for every HTTP response a non-empty body that is not valid JSON
  yields an envelope with \<open>success = status_code < 400\<close> and the raw text as \<open>data\<close>.
  The code does not return an envelope when a \<open>GET\<close> is answered 200 with the body \<open>[\<close>
  followed by 5000 digits \<open>1\<close>: the body is not JSON, \<open>json()\<close> raises \<open>ValueError\<close> on the
  integer literal, the inner handler catches \<open>json.JSONDecodeError\<close> only, none of the
  outer handlers catches a \<open>ValueError\<close>, and \<open>_request\<close> raises it.
\<close>

theorem C4_non_json_body_raises:
  "fst (LatticeClient_request sample_fromisoformat
          (sample_client (Response \<lparr> resp_status_code = 200,
             resp_content = CHR ''['' # replicate 5000 (CHR ''1''),
             resp_text = CHR ''['' # replicate 5000 (CHR ''1''),
             resp_json = RaiseValueError, resp_headers = [] \<rparr>))
          ''GET'' ''/v1.0/collections'' None None [])
   = Inl ValueError"
  by (simp add: LatticeClient_request_def Let_def sample_client_simps upper_def upper_char_def)

section \<open>Health check\<close>

text \<open>
  When the HTTP call itself fails (connection refused, timeout, any other request
  exception), \<open>health_check\<close> catches the translated error and returns \<open>False\<close>.
\<close>

lemma health_check_catches:
  assumes "lc_session self \<lparr> req_method = ''GET'', req_url = lc_base_url self @ ''/v1.0/health'',
             req_json = None, req_params = None, req_timeout = lc_timeout self \<rparr> = outcome"
    and "outcome \<in> {RaiseConnectionError, RaiseTimeout, RaiseRequestException msg}"
  shows "fst (LatticeClient_health_check fi self sent) = Inr (PBool False)"
  using assms
  by (auto simp: LatticeClient_health_check_def LatticeClient_request_def Let_def)

text \<open>
  Claim C6 says that \<open>health_check\<close> never raises, whatever the outcome of the HTTP call.
  The code does raise when the health endpoint answers 200 with a body that is valid
  JSON but not an object, here the array \<open>[]\<close>: \<open>ResponseContext.from_dict\<close> calls
  \<open>.get\<close> on the list, and the \<open>AttributeError\<close> is neither a \<open>requests\<close> exception nor a
  \<open>LatticeException\<close>, so no handler catches it.
\<close>

theorem C6_health_check_raises:
  "fst (LatticeClient_health_check sample_fromisoformat
          (sample_client (Response \<lparr> resp_status_code = 200, resp_content = ''[]'',
             resp_text = ''[]'', resp_json = JsonValue (PList []), resp_headers = [] \<rparr>)) [])
   = Inl AttributeError"
  by (simp add: LatticeClient_health_check_def LatticeClient_request_def Let_def
      sample_client_simps upper_def upper_char_def)

section \<open>Collections.create\<close>

text \<open>
  Claim C5 says that \<open>create\<close> with an empty name raises \<open>LatticeValidationError\<close> before
  any request is sent. At the empty name, with every other argument at its default and a
  server that answers 400 with no body, \<open>create\<close> raises nothing, returns \<open>None\<close>, and
  has sent the request with the body \<open>{"name": ""}\<close>.
\<close>

theorem C5_counterexample:
  "CollectionMethods_create sample_fromisoformat
     (sample_client (Response \<lparr> resp_status_code = 400, resp_content = [], resp_text = [],
        resp_json = RaiseJSONDecodeError, resp_headers = [] \<rparr>))
     [] None None None None SEM_NONE None IM_ALL None []
   = (Inr None,
      [\<lparr> req_method = ''PUT'', req_url = ''http://localhost:8000/v1.0/collections'',
         req_json = Some (PDict [(''name'', PStr [])]), req_params = None, req_timeout = 30 \<rparr>])"
  by (simp add: CollectionMethods_create_def CollectionMethods_create_data_def Let_def set_if_def
      LatticeClient_request_def sample_client_simps upper_def upper_char_def
      ResponseContext_default_def)

text \<open>
  Claim C5, amended. \<open>create\<close> validates nothing on the client side: for all arguments,
  an empty name included, it sends exactly one request, a \<open>PUT\<close> to
  \<open>/v1.0/collections\<close> whose body carries the name as given, and it never raises
  \<open>LatticeValidationError\<close>.
\<close>

theorem C5_create_sends_unvalidated:
  "snd (CollectionMethods_create fi client name description documents_directory labels tags
          schema_enforcement_mode field_constraints indexing_mode indexed_fields sent) =
     sent @ [\<lparr> req_method = ''PUT'', req_url = lc_base_url client @ ''/v1.0/collections'',
               req_json = Some (PDict (CollectionMethods_create_data name description
                 documents_directory labels tags schema_enforcement_mode field_constraints
                 indexing_mode indexed_fields)),
               req_params = None, req_timeout = lc_timeout client \<rparr>] \<and>
   map_of (CollectionMethods_create_data name description documents_directory labels tags
             schema_enforcement_mode field_constraints indexing_mode indexed_fields) ''name''
     = Some (PStr name) \<and>
   fst (CollectionMethods_create fi client name description documents_directory labels tags
          schema_enforcement_mode field_constraints indexing_mode indexed_fields sent)
     \<noteq> Inl (LatticeValidationError message field)"
proof -
  let ?data = "CollectionMethods_create_data name description documents_directory labels tags
     schema_enforcement_mode field_constraints indexing_mode indexed_fields"
  let ?r = "LatticeClient_request fi client ''PUT'' ''/v1.0/collections'' (Some (PDict ?data)) None sent"
  have name: "map_of ?data ''name'' = Some (PStr name)"
    by (simp add: CollectionMethods_create_data_def Let_def map_of_set_if)
  have "fst (CollectionMethods_create fi client name description documents_directory labels tags
          schema_enforcement_mode field_constraints indexing_mode indexed_fields sent)
     \<noteq> Inl (LatticeValidationError message field)"
  proof (cases ?r)
    case (Pair res sent')
    then have res: "fst ?r = res" by simp
    show ?thesis
    proof (cases res)
      case (Inl e)
      with res have "e \<noteq> LatticeValidationError message field"
        using LatticeClient_request_errors by blast
      with Pair Inl show ?thesis
        by (simp add: CollectionMethods_create_def Let_def)
    next
      case (Inr envelope)
      with Pair show ?thesis
        using from_dict_errors(1)
        by (cases envelope) (auto simp: CollectionMethods_create_def Let_def)
    qed
  qed
  with name show ?thesis
    by (simp add: CollectionMethods_create_sent)
qed

text \<open>
  Claim C10. The body that \<open>create\<close> sends always has \<open>name\<close>; it has
  \<open>schemaEnforcementMode\<close> exactly when the argument is not \<open>SchemaEnforcementMode.NONE\<close>
  and \<open>indexingMode\<close> exactly when the argument is not \<open>IndexingMode.ALL\<close>, each with the
  member's wire string.
\<close>

theorem C10_create_body:
  "snd (CollectionMethods_create fi client name description documents_directory labels tags
          schema_enforcement_mode field_constraints indexing_mode indexed_fields sent) =
     sent @ [\<lparr> req_method = ''PUT'', req_url = lc_base_url client @ ''/v1.0/collections'',
               req_json = Some (PDict (CollectionMethods_create_data name description
                 documents_directory labels tags schema_enforcement_mode field_constraints
                 indexing_mode indexed_fields)),
               req_params = None, req_timeout = lc_timeout client \<rparr>] \<and>
   map_of (CollectionMethods_create_data name description documents_directory labels tags
             schema_enforcement_mode field_constraints indexing_mode indexed_fields) ''name''
     = Some (PStr name) \<and>
   map_of (CollectionMethods_create_data name description documents_directory labels tags
             schema_enforcement_mode field_constraints indexing_mode indexed_fields)
       ''schemaEnforcementMode''
     = (if schema_enforcement_mode = SEM_NONE then None
        else Some (PStr (SchemaEnforcementMode_value schema_enforcement_mode))) \<and>
   map_of (CollectionMethods_create_data name description documents_directory labels tags
             schema_enforcement_mode field_constraints indexing_mode indexed_fields)
       ''indexingMode''
     = (if indexing_mode = IM_ALL then None
        else Some (PStr (IndexingMode_value indexing_mode)))"
  by (simp add: CollectionMethods_create_sent CollectionMethods_create_data_def Let_def map_of_set_if)

section \<open>Search\<close>

text \<open>
  Claim C7 says that the encoding of a filter whose condition is \<open>IsNull\<close> or
  \<open>IsNotNull\<close> omits \<open>value\<close> whatever value the filter carries. An \<open>IsNull\<close> filter
  carrying the value \<open>x\<close> is encoded with \<open>value\<close> present.
\<close>

theorem C7_counterexample:
  "map_of (SearchFilter_to_dict
      \<lparr> sf_field = ''deletedAt'', sf_condition = IS_NULL, sf_value = Some ''x'' \<rparr>) ''value''
     = Some (PStr ''x'')"
  by (simp add: SearchFilter_to_dict_def Let_def map_of_set_if)

text \<open>
  Claim C7, amended. For every filter, whatever its condition, the encoding has
  \<open>field\<close> and \<open>condition\<close>, and has \<open>value\<close> exactly when the filter carries one (it is
  omitted exactly when the filter's value is \<open>None\<close>).
\<close>

theorem C7_value_present_iff_set:
  "map_of (SearchFilter_to_dict self) ''field'' = Some (PStr (sf_field self)) \<and>
   map_of (SearchFilter_to_dict self) ''condition'' =
     Some (PStr (SearchCondition_value (sf_condition self))) \<and>
   map_of (SearchFilter_to_dict self) ''value'' = map_option PStr (sf_value self)"
  by (cases "sf_value self") (simp_all add: SearchFilter_to_dict_def Let_def map_of_set_if)

text \<open>
  Claim C9. \<open>enumerate\<close> is \<open>search\<close>: for every query, client and response it returns
  the same result and leaves the same requests sent, namely one \<open>POST\<close> of the encoded
  query to the collection's search endpoint.
\<close>

theorem C9_enumerate_is_search:
  "SearchMethods_enumerate fi client query sent = SearchMethods_search fi client query sent \<and>
   snd (SearchMethods_enumerate fi client query sent) =
     sent @ [\<lparr> req_method = ''POST'',
               req_url = lc_base_url client @ ''/v1.0/collections/'' @ sq_collection_id query
                           @ ''/documents/search'',
               req_json = Some (PDict (SearchQuery_to_dict query)),
               req_params = None, req_timeout = lc_timeout client \<rparr>]"
proof -
  let ?r = "LatticeClient_request fi client ''POST''
             (''/v1.0/collections/'' @ sq_collection_id query @ ''/documents/search'')
             (Some (PDict (SearchQuery_to_dict query))) None sent"
  have "snd (SearchMethods_search fi client query sent) = snd ?r"
    unfolding SearchMethods_search_def
    by (cases ?r) (simp split: sum.splits option.splits)
  then show ?thesis
    by (simp add: SearchMethods_enumerate_def LatticeClient_request_sent)
qed

section \<open>Encoders\<close>

text \<open>What each encoder stores under a key, and which keys it can store.\<close>

lemma FieldConstraint_to_dict_lookup:
  "map_of (FieldConstraint_to_dict x) k =
     (if truthy (fc_array_element_type x) \<and> k = ''arrayElementType''
        then Some (fc_array_element_type x)
      else if truthy (fc_allowed_values x) \<and> k = ''allowedValues'' then Some (fc_allowed_values x)
      else if fc_max_length x \<noteq> PNone \<and> k = ''maxLength'' then Some (fc_max_length x)
      else if fc_min_length x \<noteq> PNone \<and> k = ''minLength'' then Some (fc_min_length x)
      else if fc_max_value x \<noteq> PNone \<and> k = ''maxValue'' then Some (fc_max_value x)
      else if fc_min_value x \<noteq> PNone \<and> k = ''minValue'' then Some (fc_min_value x)
      else if truthy (fc_regex_pattern x) \<and> k = ''regexPattern'' then Some (fc_regex_pattern x)
      else if \<not> truthy (fc_nullable x) \<and> k = ''nullable'' then Some (fc_nullable x)
      else if truthy (fc_required x) \<and> k = ''required'' then Some (fc_required x)
      else if truthy (fc_data_type x) \<and> k = ''dataType'' then Some (fc_data_type x)
      else if k = ''fieldPath'' then Some (fc_field_path x)
      else None)"
  by (simp only: FieldConstraint_to_dict_def Let_def map_of_set_if map_of.simps fun_upd_apply
        fst_conv snd_conv)

lemma EnumerationOrder_value_nonempty: "EnumerationOrder_value ord \<noteq> []"
  by (cases ord) simp_all

lemma SearchQuery_to_dict_lookup:
  "map_of (SearchQuery_to_dict q) k =
     (if sq_include_content q \<and> k = ''includeContent'' then Some (PBool (sq_include_content q))
      else if truthy_opt (map_option EnumerationOrder_value (sq_ordering q)) \<and> k = ''ordering''
        then Some (py_opt (\<lambda>ordering'. PStr (EnumerationOrder_value ordering'))
                     (sq_ordering q))
      else if sq_skip q \<noteq> None \<and> k = ''skip'' then Some (py_opt PInt (sq_skip q))
      else if sq_max_results q \<noteq> None \<and> k = ''maxResults''
        then Some (py_opt PInt (sq_max_results q))
      else if truthy_opt (sq_tags q) \<and> k = ''tags'' then Some (py_opt str_dict (sq_tags q))
      else if truthy_opt (sq_labels q) \<and> k = ''labels'' then Some (py_opt str_list (sq_labels q))
      else if truthy_opt (sq_filters q) \<and> k = ''filters''
        then Some (py_opt (\<lambda>fs. PList (map (\<lambda>f. PDict (SearchFilter_to_dict f)) fs))
                     (sq_filters q))
      else None)"
  by (simp only: SearchQuery_to_dict_def Let_def map_of_set_if map_of.simps)

lemma FieldConstraint_to_dict_dom:
  "dom (map_of (FieldConstraint_to_dict x)) \<subseteq>
     {''fieldPath'', ''dataType'', ''required'', ''nullable'', ''regexPattern'', ''minValue'',
      ''maxValue'', ''minLength'', ''maxLength'', ''allowedValues'', ''arrayElementType''}"
proof
  fix k
  assume "k \<in> dom (map_of (FieldConstraint_to_dict x))"
  then have some: "map_of (FieldConstraint_to_dict x) k \<noteq> None"
    by (simp only: domIff not_False_eq_True)
  show "k \<in> {''fieldPath'', ''dataType'', ''required'', ''nullable'', ''regexPattern'', ''minValue'',
      ''maxValue'', ''minLength'', ''maxLength'', ''allowedValues'', ''arrayElementType''}"
  proof (rule ccontr)
    assume "k \<notin> {''fieldPath'', ''dataType'', ''required'', ''nullable'', ''regexPattern'',
      ''minValue'', ''maxValue'', ''minLength'', ''maxLength'', ''allowedValues'', ''arrayElementType''}"
    then have "map_of (FieldConstraint_to_dict x) k = None"
      by (simp add: FieldConstraint_to_dict_lookup)
    with some show False by simp
  qed
qed

lemma SearchQuery_to_dict_dom:
  "dom (map_of (SearchQuery_to_dict q)) \<subseteq>
     {''filters'', ''labels'', ''tags'', ''maxResults'', ''skip'', ''ordering'', ''includeContent''}"
proof
  fix k
  assume "k \<in> dom (map_of (SearchQuery_to_dict q))"
  then have some: "map_of (SearchQuery_to_dict q) k \<noteq> None"
    by (simp only: domIff not_False_eq_True)
  show "k \<in> {''filters'', ''labels'', ''tags'', ''maxResults'', ''skip'', ''ordering'',
      ''includeContent''}"
  proof (rule ccontr)
    assume "k \<notin> {''filters'', ''labels'', ''tags'', ''maxResults'', ''skip'', ''ordering'',
      ''includeContent''}"
    then have "map_of (SearchQuery_to_dict q) k = None"
      by (simp add: SearchQuery_to_dict_lookup)
    with some show False by simp
  qed
qed

text \<open>
  Claim C2 says that an encoder omits a field exactly when it equals its "not set"
  default and never emits an empty value for such a field. The default
  \<open>FieldConstraint()\<close>, whose \<open>field_path\<close> is the empty string, is encoded as
  \<open>{"fieldPath": ""}\<close>: the field is at its default and is emitted, empty.
\<close>

theorem C2_counterexample:
  "FieldConstraint_to_dict
     \<lparr> fc_id = PStr [], fc_collection_id = PStr [], fc_field_path = PStr [],
       fc_data_type = PNone, fc_required = PBool False, fc_nullable = PBool True,
       fc_regex_pattern = PNone, fc_min_value = PNone, fc_max_value = PNone,
       fc_min_length = PNone, fc_max_length = PNone, fc_allowed_values = PNone,
       fc_array_element_type = PNone, fc_created_utc = None, fc_last_update_utc = None \<rparr>
   = [(''fieldPath'', PStr [])]"
  by (simp add: FieldConstraint_to_dict_def Let_def set_if_def)

text \<open>
  Claim C2, amended. \<open>FieldConstraint.to_dict\<close> always emits \<open>fieldPath\<close>, whatever its
  value. It emits \<open>dataType\<close>, \<open>required\<close>, \<open>regexPattern\<close>, \<open>allowedValues\<close> and
  \<open>arrayElementType\<close> exactly when the field is true in Python's sense (not \<open>None\<close>, not
  empty, not \<open>False\<close>), \<open>nullable\<close> exactly when it is false (its default is \<open>True\<close>),
  and \<open>minValue\<close>, \<open>maxValue\<close>, \<open>minLength\<close>, \<open>maxLength\<close> exactly when they are not
  \<open>None\<close>; it emits no other key (\<open>id\<close>, \<open>collectionId\<close> and the timestamps never
  appear). \<open>SearchQuery.to_dict\<close> emits \<open>filters\<close>, \<open>labels\<close> and \<open>tags\<close> exactly when they
  are set and not empty, \<open>maxResults\<close>, \<open>skip\<close> and \<open>ordering\<close> exactly when they are
  set, \<open>includeContent\<close> exactly when it is true, and no other key (\<open>collectionId\<close> goes
  into the path). An emitted field always carries the field's own value.
\<close>

theorem C2_encode_omission:
  "map_of (FieldConstraint_to_dict x) ''fieldPath'' = Some (fc_field_path x) \<and>
   map_of (FieldConstraint_to_dict x) ''dataType'' =
     (if truthy (fc_data_type x) then Some (fc_data_type x) else None) \<and>
   map_of (FieldConstraint_to_dict x) ''required'' =
     (if truthy (fc_required x) then Some (fc_required x) else None) \<and>
   map_of (FieldConstraint_to_dict x) ''nullable'' =
     (if truthy (fc_nullable x) then None else Some (fc_nullable x)) \<and>
   map_of (FieldConstraint_to_dict x) ''regexPattern'' =
     (if truthy (fc_regex_pattern x) then Some (fc_regex_pattern x) else None) \<and>
   map_of (FieldConstraint_to_dict x) ''minValue'' =
     (if fc_min_value x = PNone then None else Some (fc_min_value x)) \<and>
   map_of (FieldConstraint_to_dict x) ''maxValue'' =
     (if fc_max_value x = PNone then None else Some (fc_max_value x)) \<and>
   map_of (FieldConstraint_to_dict x) ''minLength'' =
     (if fc_min_length x = PNone then None else Some (fc_min_length x)) \<and>
   map_of (FieldConstraint_to_dict x) ''maxLength'' =
     (if fc_max_length x = PNone then None else Some (fc_max_length x)) \<and>
   map_of (FieldConstraint_to_dict x) ''allowedValues'' =
     (if truthy (fc_allowed_values x) then Some (fc_allowed_values x) else None) \<and>
   map_of (FieldConstraint_to_dict x) ''arrayElementType'' =
     (if truthy (fc_array_element_type x) then Some (fc_array_element_type x) else None) \<and>
   dom (map_of (FieldConstraint_to_dict x)) \<subseteq>
     {''fieldPath'', ''dataType'', ''required'', ''nullable'', ''regexPattern'', ''minValue'',
      ''maxValue'', ''minLength'', ''maxLength'', ''allowedValues'', ''arrayElementType''} \<and>
   map_of (SearchQuery_to_dict q) ''filters'' =
     (case sq_filters q of
        None \<Rightarrow> None
      | Some fs \<Rightarrow> if fs = [] then None
                  else Some (PList (map (\<lambda>f. PDict (SearchFilter_to_dict f)) fs))) \<and>
   map_of (SearchQuery_to_dict q) ''labels'' =
     (case sq_labels q of
        None \<Rightarrow> None
      | Some ls \<Rightarrow> if ls = [] then None else Some (str_list ls)) \<and>
   map_of (SearchQuery_to_dict q) ''tags'' =
     (case sq_tags q of
        None \<Rightarrow> None
      | Some ts \<Rightarrow> if ts = [] then None else Some (str_dict ts)) \<and>
   map_of (SearchQuery_to_dict q) ''maxResults'' =
     (case sq_max_results q of None \<Rightarrow> None | Some n \<Rightarrow> Some (PInt n)) \<and>
   map_of (SearchQuery_to_dict q) ''skip'' =
     (case sq_skip q of None \<Rightarrow> None | Some n \<Rightarrow> Some (PInt n)) \<and>
   map_of (SearchQuery_to_dict q) ''ordering'' =
     (case sq_ordering q of None \<Rightarrow> None | Some ord \<Rightarrow> Some (PStr (EnumerationOrder_value ord))) \<and>
   map_of (SearchQuery_to_dict q) ''includeContent'' =
     (if sq_include_content q then Some (PBool True) else None) \<and>
   dom (map_of (SearchQuery_to_dict q)) \<subseteq>
     {''filters'', ''labels'', ''tags'', ''maxResults'', ''skip'', ''ordering'', ''includeContent''}"
  by (intro conjI FieldConstraint_to_dict_dom SearchQuery_to_dict_dom;
      simp add: FieldConstraint_to_dict_lookup SearchQuery_to_dict_lookup
        EnumerationOrder_value_nonempty split: option.split)

section \<open>Round trip of \<open>FieldConstraint\<close>\<close>

lemma FieldConstraint_from_dict_fields:
  assumes "FieldConstraint_from_dict fi (PDict data) = Inr (Some y)"
  shows "fc_id y = dict_get data ''id'' (PStr [])"
    and "fc_collection_id y = dict_get data ''collectionId'' (PStr [])"
    and "fc_field_path y = dict_get data ''fieldPath'' (PStr [])"
    and "fc_data_type y = dict_get data ''dataType'' PNone"
    and "fc_required y = dict_get data ''required'' (PBool False)"
    and "fc_nullable y = dict_get data ''nullable'' (PBool True)"
    and "fc_regex_pattern y = dict_get data ''regexPattern'' PNone"
    and "fc_min_value y = dict_get data ''minValue'' PNone"
    and "fc_max_value y = dict_get data ''maxValue'' PNone"
    and "fc_min_length y = dict_get data ''minLength'' PNone"
    and "fc_max_length y = dict_get data ''maxLength'' PNone"
    and "fc_allowed_values y = dict_get data ''allowedValues'' PNone"
    and "fc_array_element_type y = dict_get data ''arrayElementType'' PNone"
    and "fc_created_utc y = parse_datetime fi (dict_get data ''createdUtc'' PNone)"
    and "fc_last_update_utc y = parse_datetime fi (dict_get data ''lastUpdateUtc'' PNone)"
  using assms by auto

text \<open>
  Claim C3. For every \<open>FieldConstraint\<close> value \<open>x\<close>, decoding the encoding of \<open>x\<close> succeeds,
  and for each wire field: when the encoder emitted it, the emitted value is the field of
  \<open>x\<close> and the decoded field equals it; when the encoder omitted it, the decoded field has
  the dataclass default. The fields with no wire representation (\<open>id\<close>, \<open>collection_id\<close>,
  the timestamps) come back as their defaults.
\<close>

theorem C3_FieldConstraint_roundtrip:
  "\<exists>y. FieldConstraint_from_dict fi (PDict (FieldConstraint_to_dict x)) = Inr (Some y) \<and>
     (case map_of (FieldConstraint_to_dict x) ''fieldPath'' of
        Some v \<Rightarrow> v = fc_field_path x \<and> fc_field_path y = fc_field_path x
      | None \<Rightarrow> fc_field_path y = PStr []) \<and>
     (case map_of (FieldConstraint_to_dict x) ''dataType'' of
        Some v \<Rightarrow> v = fc_data_type x \<and> fc_data_type y = fc_data_type x
      | None \<Rightarrow> fc_data_type y = PNone) \<and>
     (case map_of (FieldConstraint_to_dict x) ''required'' of
        Some v \<Rightarrow> v = fc_required x \<and> fc_required y = fc_required x
      | None \<Rightarrow> fc_required y = PBool False) \<and>
     (case map_of (FieldConstraint_to_dict x) ''nullable'' of
        Some v \<Rightarrow> v = fc_nullable x \<and> fc_nullable y = fc_nullable x
      | None \<Rightarrow> fc_nullable y = PBool True) \<and>
     (case map_of (FieldConstraint_to_dict x) ''regexPattern'' of
        Some v \<Rightarrow> v = fc_regex_pattern x \<and> fc_regex_pattern y = fc_regex_pattern x
      | None \<Rightarrow> fc_regex_pattern y = PNone) \<and>
     (case map_of (FieldConstraint_to_dict x) ''minValue'' of
        Some v \<Rightarrow> v = fc_min_value x \<and> fc_min_value y = fc_min_value x
      | None \<Rightarrow> fc_min_value y = PNone) \<and>
     (case map_of (FieldConstraint_to_dict x) ''maxValue'' of
        Some v \<Rightarrow> v = fc_max_value x \<and> fc_max_value y = fc_max_value x
      | None \<Rightarrow> fc_max_value y = PNone) \<and>
     (case map_of (FieldConstraint_to_dict x) ''minLength'' of
        Some v \<Rightarrow> v = fc_min_length x \<and> fc_min_length y = fc_min_length x
      | None \<Rightarrow> fc_min_length y = PNone) \<and>
     (case map_of (FieldConstraint_to_dict x) ''maxLength'' of
        Some v \<Rightarrow> v = fc_max_length x \<and> fc_max_length y = fc_max_length x
      | None \<Rightarrow> fc_max_length y = PNone) \<and>
     (case map_of (FieldConstraint_to_dict x) ''allowedValues'' of
        Some v \<Rightarrow> v = fc_allowed_values x \<and> fc_allowed_values y = fc_allowed_values x
      | None \<Rightarrow> fc_allowed_values y = PNone) \<and>
     (case map_of (FieldConstraint_to_dict x) ''arrayElementType'' of
        Some v \<Rightarrow> v = fc_array_element_type x \<and> fc_array_element_type y = fc_array_element_type x
      | None \<Rightarrow> fc_array_element_type y = PNone) \<and>
     fc_id y = PStr [] \<and> fc_collection_id y = PStr [] \<and>
     fc_created_utc y = None \<and> fc_last_update_utc y = None"
proof -
  obtain y where y: "FieldConstraint_from_dict fi (PDict (FieldConstraint_to_dict x)) = Inr (Some y)"
    by simp
  note fields = FieldConstraint_from_dict_fields [OF y]
  show ?thesis
    by (intro exI [of _ y] conjI y;
        simp add: fields dict_get_def FieldConstraint_to_dict_lookup)
qed

text \<open>
  The round trip at a concrete constraint: the emitted fields (\<open>fieldPath\<close>, \<open>dataType\<close>,
  \<open>required\<close>, \<open>nullable\<close>, \<open>minLength\<close>) come back unchanged, the omitted ones as defaults.
\<close>

theorem C3_FieldConstraint_roundtrip_witness:
  "FieldConstraint_from_dict sample_fromisoformat (PDict (FieldConstraint_to_dict
     \<lparr> fc_id = PStr ''fc_1'', fc_collection_id = PStr ''col_1'', fc_field_path = PStr ''Name'',
       fc_data_type = PStr ''string'', fc_required = PBool True, fc_nullable = PBool False,
       fc_regex_pattern = PNone, fc_min_value = PNone, fc_max_value = PNone,
       fc_min_length = PInt 0, fc_max_length = PNone, fc_allowed_values = PList [],
       fc_array_element_type = PStr [], fc_created_utc = Some sample_datetime,
       fc_last_update_utc = None \<rparr>))
   = Inr (Some
     \<lparr> fc_id = PStr [], fc_collection_id = PStr [], fc_field_path = PStr ''Name'',
       fc_data_type = PStr ''string'', fc_required = PBool True, fc_nullable = PBool False,
       fc_regex_pattern = PNone, fc_min_value = PNone, fc_max_value = PNone,
       fc_min_length = PInt 0, fc_max_length = PNone, fc_allowed_values = PNone,
       fc_array_element_type = PNone, fc_created_utc = None, fc_last_update_utc = None \<rparr>)"
  using C3_FieldConstraint_roundtrip [of sample_fromisoformat
     "\<lparr> fc_id = PStr ''fc_1'', fc_collection_id = PStr ''col_1'', fc_field_path = PStr ''Name'',
       fc_data_type = PStr ''string'', fc_required = PBool True, fc_nullable = PBool False,
       fc_regex_pattern = PNone, fc_min_value = PNone, fc_max_value = PNone,
       fc_min_length = PInt 0, fc_max_length = PNone, fc_allowed_values = PList [],
       fc_array_element_type = PStr [], fc_created_utc = Some sample_datetime,
       fc_last_update_utc = None \<rparr>"]
  by (simp add: FieldConstraint_to_dict_def Let_def set_if_def dict_get_def)

section \<open>Decoding a wire object\<close>

lemma dict_get_missing: "map_of data k = None \<Longrightarrow> dict_get data k dflt = dflt"
  by (simp add: dict_get_def)

lemma dict_get_present: "map_of data k = Some v \<Longrightarrow> dict_get data k dflt = v"
  by (simp add: dict_get_def)

lemma py_or_default: "py_or (PList []) (PList []) = PList []" "py_or (PDict []) (PDict []) = PDict []"
  by (simp_all add: py_or_def)

lemma map_raise_decodable:
  "list_all decodable_document ds \<Longrightarrow> \<exists>docs. map_raise (Document_from_dict fi) ds = Inr docs"
proof (induction ds)
  case Nil
  then show ?case by simp
next
  case (Cons d ds)
  then obtain docs where docs: "map_raise (Document_from_dict fi) ds = Inr docs"
    by auto
  from Cons.prems have "decodable_document d" by simp
  then obtain doc where "Document_from_dict fi d = Inr doc"
    by (cases d) simp_all
  with docs show ?case by simp
qed

lemma SearchResult_documents_decodable:
  assumes "documents_decodable data"
  shows "\<exists>docs. SearchResult_documents fi data = Inr docs \<and>
           (map_of data ''documents'' = None \<longrightarrow> docs = [])"
proof (cases "map_of data ''documents''")
  case None
  then show ?thesis by (simp add: SearchResult_documents_def dict_get_def)
next
  case (Some v)
  show ?thesis
  proof (cases "truthy v")
    case False
    with Some show ?thesis by (simp add: SearchResult_documents_def dict_get_def)
  next
    case True
    with Some assms obtain ds where v: "v = PList ds" and ds: "list_all decodable_document ds"
      by (cases v) (simp_all add: documents_decodable_def)
    from map_raise_decodable [OF ds] obtain docs
      where "map_raise (Document_from_dict fi) ds = Inr docs" by blast
    with Some True v show ?thesis by (simp add: SearchResult_documents_def dict_get_def)
  qed
qed

lemma SearchResult_from_dict_defaults:
  assumes "documents_decodable data"
  shows "\<exists>r.
      SearchResult_from_dict fi (PDict data) = Inr (Some r) \<and>
      (map_of data ''success'' = None \<longrightarrow> sr_success r = PBool False) \<and>
      (map_of data ''timestamp'' = None \<longrightarrow> sr_timestamp r = None) \<and>
      (map_of data ''maxResults'' = None \<longrightarrow> sr_max_results r = PNone) \<and>
      (map_of data ''continuationToken'' = None \<longrightarrow> sr_continuation_token r = PNone) \<and>
      (map_of data ''endOfResults'' = None \<longrightarrow> sr_end_of_results r = PBool False) \<and>
      (map_of data ''totalRecords'' = None \<longrightarrow> sr_total_records r = PInt 0) \<and>
      (map_of data ''recordsRemaining'' = None \<longrightarrow> sr_records_remaining r = PInt 0) \<and>
      (map_of data ''documents'' = None \<longrightarrow> sr_documents r = [])"
proof -
  from SearchResult_documents_decodable [OF assms] obtain docs
    where docs: "SearchResult_documents fi data = Inr docs"
      and empty: "map_of data ''documents'' = None \<longrightarrow> docs = []"
    by blast
  from docs empty show ?thesis
    by (simp add: dict_get_missing SearchResult_timestamp_def)
qed

text \<open>
  Claim C1 says that decoding a wire object with fields missing never raises and gives
  each missing field its default, \<open>False\<close> for every boolean. Decoding the empty object
  as a \<open>FieldConstraint\<close> gives \<open>nullable = True\<close>: the dataclass declares
  \<open>nullable: bool = True\<close> and \<open>from_dict\<close> reads \<open>data.get("nullable", True)\<close>.
\<close>

theorem C1_counterexample:
  "FieldConstraint_from_dict sample_fromisoformat (PDict [])
   = Inr (Some
     \<lparr> fc_id = PStr [], fc_collection_id = PStr [], fc_field_path = PStr [],
       fc_data_type = PNone, fc_required = PBool False, fc_nullable = PBool True,
       fc_regex_pattern = PNone, fc_min_value = PNone, fc_max_value = PNone,
       fc_min_length = PNone, fc_max_length = PNone, fc_allowed_values = PNone,
       fc_array_element_type = PNone, fc_created_utc = None, fc_last_update_utc = None \<rparr>)"
  by (simp add: dict_get_def)

text \<open>
  Claim C1, amended. For each of the ten entity types, \<open>from_dict\<close> applied to a wire
  object returns a value (it does not raise), and every field whose key is missing has
  its default: the empty string for the identifiers, \<open>Collection.name\<close>, \<open>fieldPath\<close>,
  \<open>key\<close>, \<open>dataType\<close> of a schema element and \<open>tableName\<close>; the empty list for label,
  index and error lists and for \<open>documents\<close>; the empty dictionary for tags and headers;
  \<open>False\<close> for the booleans except \<open>FieldConstraint.nullable\<close>, whose default is \<open>True\<close>;
  \<open>0\<close> for the counts and durations in milliseconds; \<open>None\<close> for the optional fields and
  the timestamps; \<open>SchemaEnforcementMode.NONE\<close> and \<open>IndexingMode.ALL\<close> for the two
  modes. For \<open>SearchResult\<close> this is under the hypothesis that the \<open>documents\<close> entry is
  well formed.
\<close>

theorem C1_decode_defaults:
  "
(\<exists>c.
         Collection_from_dict fi (PDict data) = Inr (Some c) \<and>
         (map_of data ''id'' = None \<longrightarrow> col_id c = PStr []) \<and>
         (map_of data ''name'' = None \<longrightarrow> col_name c = PStr []) \<and>
         (map_of data ''description'' = None \<longrightarrow> col_description c = PNone) \<and>
         (map_of data ''documentsDirectory'' = None \<longrightarrow> col_documents_directory c = PNone) \<and>
         (map_of data ''labels'' = None \<longrightarrow> col_labels c = PList []) \<and>
         (map_of data ''tags'' = None \<longrightarrow> col_tags c = PDict []) \<and>
         (map_of data ''createdUtc'' = None \<longrightarrow> col_created_utc c = None) \<and>
         (map_of data ''lastUpdateUtc'' = None \<longrightarrow> col_last_update_utc c = None) \<and>
         (map_of data ''schemaEnforcementMode'' = None \<longrightarrow> col_schema_enforcement_mode c = SEM_NONE) \<and>
         (map_of data ''indexingMode'' = None \<longrightarrow> col_indexing_mode c = IM_ALL)) \<and>
      (\<exists>d.
         Document_from_dict fi (PDict data) = Inr (Some d) \<and>
         (map_of data ''id'' = None \<longrightarrow> doc_id d = PStr []) \<and>
         (map_of data ''collectionId'' = None \<longrightarrow> doc_collection_id d = PStr []) \<and>
         (map_of data ''schemaId'' = None \<longrightarrow> doc_schema_id d = PStr []) \<and>
         (map_of data ''name'' = None \<longrightarrow> doc_name d = PNone) \<and>
         (map_of data ''labels'' = None \<longrightarrow> doc_labels d = PList []) \<and>
         (map_of data ''tags'' = None \<longrightarrow> doc_tags d = PDict []) \<and>
         (map_of data ''createdUtc'' = None \<longrightarrow> doc_created_utc d = None) \<and>
         (map_of data ''lastUpdateUtc'' = None \<longrightarrow> doc_last_update_utc d = None) \<and>
         (map_of data ''content'' = None \<longrightarrow> doc_content d = PNone) \<and>
         (map_of data ''contentLength'' = None \<longrightarrow> doc_content_length d = PInt 0) \<and>
         (map_of data ''sha256Hash'' = None \<longrightarrow> doc_sha256_hash d = PNone)) \<and>
      (\<exists>s.
         Schema_from_dict fi (PDict data) = Inr (Some s) \<and>
         (map_of data ''id'' = None \<longrightarrow> sch_id s = PStr []) \<and>
         (map_of data ''name'' = None \<longrightarrow> sch_name s = PNone) \<and>
         (map_of data ''hash'' = None \<longrightarrow> sch_hash s = PNone) \<and>
         (map_of data ''createdUtc'' = None \<longrightarrow> sch_created_utc s = None) \<and>
         (map_of data ''lastUpdateUtc'' = None \<longrightarrow> sch_last_update_utc s = None)) \<and>
      (\<exists>e.
         SchemaElement_from_dict fi (PDict data) = Inr (Some e) \<and>
         (map_of data ''id'' = None \<longrightarrow> se_id e = PStr []) \<and>
         (map_of data ''schemaId'' = None \<longrightarrow> se_schema_id e = PStr []) \<and>
         (map_of data ''position'' = None \<longrightarrow> se_position e = PInt 0) \<and>
         (map_of data ''key'' = None \<longrightarrow> se_key e = PStr []) \<and>
         (map_of data ''dataType'' = None \<longrightarrow> se_data_type e = PStr []) \<and>
         (map_of data ''nullable'' = None \<longrightarrow> se_nullable e = PBool False) \<and>
         (map_of data ''createdUtc'' = None \<longrightarrow> se_created_utc e = None) \<and>
         (map_of data ''lastUpdateUtc'' = None \<longrightarrow> se_last_update_utc e = None)) \<and>
      (\<exists>f.
         FieldConstraint_from_dict fi (PDict data) = Inr (Some f) \<and>
         (map_of data ''id'' = None \<longrightarrow> fc_id f = PStr []) \<and>
         (map_of data ''collectionId'' = None \<longrightarrow> fc_collection_id f = PStr []) \<and>
         (map_of data ''fieldPath'' = None \<longrightarrow> fc_field_path f = PStr []) \<and>
         (map_of data ''dataType'' = None \<longrightarrow> fc_data_type f = PNone) \<and>
         (map_of data ''required'' = None \<longrightarrow> fc_required f = PBool False) \<and>
         (map_of data ''nullable'' = None \<longrightarrow> fc_nullable f = PBool True) \<and>
         (map_of data ''regexPattern'' = None \<longrightarrow> fc_regex_pattern f = PNone) \<and>
         (map_of data ''minValue'' = None \<longrightarrow> fc_min_value f = PNone) \<and>
         (map_of data ''maxValue'' = None \<longrightarrow> fc_max_value f = PNone) \<and>
         (map_of data ''minLength'' = None \<longrightarrow> fc_min_length f = PNone) \<and>
         (map_of data ''maxLength'' = None \<longrightarrow> fc_max_length f = PNone) \<and>
         (map_of data ''allowedValues'' = None \<longrightarrow> fc_allowed_values f = PNone) \<and>
         (map_of data ''arrayElementType'' = None \<longrightarrow> fc_array_element_type f = PNone) \<and>
         (map_of data ''createdUtc'' = None \<longrightarrow> fc_created_utc f = None) \<and>
         (map_of data ''lastUpdateUtc'' = None \<longrightarrow> fc_last_update_utc f = None)) \<and>
      (\<exists>i.
         IndexedField_from_dict fi (PDict data) = Inr (Some i) \<and>
         (map_of data ''id'' = None \<longrightarrow> ixf_id i = PStr []) \<and>
         (map_of data ''collectionId'' = None \<longrightarrow> ixf_collection_id i = PStr []) \<and>
         (map_of data ''fieldPath'' = None \<longrightarrow> ixf_field_path i = PStr []) \<and>
         (map_of data ''createdUtc'' = None \<longrightarrow> ixf_created_utc i = None) \<and>
         (map_of data ''lastUpdateUtc'' = None \<longrightarrow> ixf_last_update_utc i = None)) \<and>
      (documents_decodable data \<longrightarrow>
       (\<exists>r.
         SearchResult_from_dict fi (PDict data) = Inr (Some r) \<and>
         (map_of data ''success'' = None \<longrightarrow> sr_success r = PBool False) \<and>
         (map_of data ''timestamp'' = None \<longrightarrow> sr_timestamp r = None) \<and>
         (map_of data ''maxResults'' = None \<longrightarrow> sr_max_results r = PNone) \<and>
         (map_of data ''continuationToken'' = None \<longrightarrow> sr_continuation_token r = PNone) \<and>
         (map_of data ''endOfResults'' = None \<longrightarrow> sr_end_of_results r = PBool False) \<and>
         (map_of data ''totalRecords'' = None \<longrightarrow> sr_total_records r = PInt 0) \<and>
         (map_of data ''recordsRemaining'' = None \<longrightarrow> sr_records_remaining r = PInt 0) \<and>
         (map_of data ''documents'' = None \<longrightarrow> sr_documents r = []))) \<and>
      (\<exists>b.
         IndexRebuildResult_from_dict (PDict data) = Inr (Some b) \<and>
         (map_of data ''collectionId'' = None \<longrightarrow> irr_collection_id b = PStr []) \<and>
         (map_of data ''documentsProcessed'' = None \<longrightarrow> irr_documents_processed b = PInt 0) \<and>
         (map_of data ''indexesCreated'' = None \<longrightarrow> irr_indexes_created b = PList []) \<and>
         (map_of data ''indexesDropped'' = None \<longrightarrow> irr_indexes_dropped b = PList []) \<and>
         (map_of data ''valuesInserted'' = None \<longrightarrow> irr_values_inserted b = PInt 0) \<and>
         (map_of data ''duration'' = None \<longrightarrow> irr_duration b = PNone) \<and>
         (map_of data ''durationMs'' = None \<longrightarrow> irr_duration_ms b = PInt 0) \<and>
         (map_of data ''errors'' = None \<longrightarrow> irr_errors b = PList []) \<and>
         (map_of data ''success'' = None \<longrightarrow> irr_success b = PBool False)) \<and>
      (\<exists>p.
         ResponseContext_from_dict fi (PDict data) = Inr (Some p) \<and>
         (map_of data ''success'' = None \<longrightarrow> rc_success p = PBool False) \<and>
         (map_of data ''statusCode'' = None \<longrightarrow> rc_status_code p = PInt 0) \<and>
         (map_of data ''errorMessage'' = None \<longrightarrow> rc_error_message p = PNone) \<and>
         (map_of data ''data'' = None \<longrightarrow> rc_data p = PNone) \<and>
         (map_of data ''headers'' = None \<longrightarrow> rc_headers p = PDict []) \<and>
         (map_of data ''processingTimeMs'' = None \<longrightarrow> rc_processing_time_ms p = PInt 0) \<and>
         (map_of data ''guid'' = None \<longrightarrow> rc_guid p = PNone) \<and>
         (map_of data ''timestampUtc'' = None \<longrightarrow> rc_timestamp_utc p = None)) \<and>
      (\<exists>m.
         IndexTableMapping_from_dict (PDict data) = Inr (Some m) \<and>
         (map_of data ''key'' = None \<longrightarrow> itm_key m = PStr []) \<and>
         (map_of data ''tableName'' = None \<longrightarrow> itm_table_name m = PStr []))
"
  by (intro conjI impI SearchResult_from_dict_defaults;
      simp add: dict_get_missing py_or_default lower_def lower_char_def)

text \<open>
  The empty wire object decodes, for each entity type, to the value with every field at
  its default.
\<close>

theorem C1_decode_defaults_witness:
  "
(\<exists>c.
         Collection_from_dict sample_fromisoformat (PDict []) = Inr (Some c) \<and> col_id c = PStr [] \<and>
         col_name c = PStr [] \<and> col_description c = PNone \<and> col_documents_directory c = PNone \<and>
         col_labels c = PList [] \<and> col_tags c = PDict [] \<and> col_created_utc c = None \<and>
         col_last_update_utc c = None \<and> col_schema_enforcement_mode c = SEM_NONE \<and>
         col_indexing_mode c = IM_ALL) \<and>
      (\<exists>d.
         Document_from_dict sample_fromisoformat (PDict []) = Inr (Some d) \<and> doc_id d = PStr [] \<and>
         doc_collection_id d = PStr [] \<and> doc_schema_id d = PStr [] \<and> doc_name d = PNone \<and>
         doc_labels d = PList [] \<and> doc_tags d = PDict [] \<and> doc_created_utc d = None \<and>
         doc_last_update_utc d = None \<and> doc_content d = PNone \<and> doc_content_length d = PInt 0 \<and>
         doc_sha256_hash d = PNone) \<and>
      (\<exists>s.
         Schema_from_dict sample_fromisoformat (PDict []) = Inr (Some s) \<and> sch_id s = PStr [] \<and>
         sch_name s = PNone \<and> sch_hash s = PNone \<and> sch_created_utc s = None \<and>
         sch_last_update_utc s = None) \<and>
      (\<exists>e.
         SchemaElement_from_dict sample_fromisoformat (PDict []) = Inr (Some e) \<and> se_id e = PStr [] \<and>
         se_schema_id e = PStr [] \<and> se_position e = PInt 0 \<and> se_key e = PStr [] \<and>
         se_data_type e = PStr [] \<and> se_nullable e = PBool False \<and> se_created_utc e = None \<and>
         se_last_update_utc e = None) \<and>
      (\<exists>f.
         FieldConstraint_from_dict sample_fromisoformat (PDict []) = Inr (Some f) \<and>
         fc_id f = PStr [] \<and> fc_collection_id f = PStr [] \<and> fc_field_path f = PStr [] \<and>
         fc_data_type f = PNone \<and> fc_required f = PBool False \<and> fc_nullable f = PBool True \<and>
         fc_regex_pattern f = PNone \<and> fc_min_value f = PNone \<and> fc_max_value f = PNone \<and>
         fc_min_length f = PNone \<and> fc_max_length f = PNone \<and> fc_allowed_values f = PNone \<and>
         fc_array_element_type f = PNone \<and> fc_created_utc f = None \<and>
         fc_last_update_utc f = None) \<and>
      (\<exists>i.
         IndexedField_from_dict sample_fromisoformat (PDict []) = Inr (Some i) \<and> ixf_id i = PStr [] \<and>
         ixf_collection_id i = PStr [] \<and> ixf_field_path i = PStr [] \<and> ixf_created_utc i = None \<and>
         ixf_last_update_utc i = None) \<and>
      (\<exists>r.
         SearchResult_from_dict sample_fromisoformat (PDict []) = Inr (Some r) \<and>
         sr_success r = PBool False \<and> sr_timestamp r = None \<and> sr_max_results r = PNone \<and>
         sr_continuation_token r = PNone \<and> sr_end_of_results r = PBool False \<and>
         sr_total_records r = PInt 0 \<and> sr_records_remaining r = PInt 0 \<and> sr_documents r = []) \<and>
      (\<exists>b.
         IndexRebuildResult_from_dict (PDict []) = Inr (Some b) \<and> irr_collection_id b = PStr [] \<and>
         irr_documents_processed b = PInt 0 \<and> irr_indexes_created b = PList [] \<and>
         irr_indexes_dropped b = PList [] \<and> irr_values_inserted b = PInt 0 \<and>
         irr_duration b = PNone \<and> irr_duration_ms b = PInt 0 \<and> irr_errors b = PList [] \<and>
         irr_success b = PBool False) \<and>
      (\<exists>p.
         ResponseContext_from_dict sample_fromisoformat (PDict []) = Inr (Some p) \<and>
         rc_success p = PBool False \<and> rc_status_code p = PInt 0 \<and> rc_error_message p = PNone \<and>
         rc_data p = PNone \<and> rc_headers p = PDict [] \<and> rc_processing_time_ms p = PInt 0 \<and>
         rc_guid p = PNone \<and> rc_timestamp_utc p = None) \<and>
      (\<exists>m.
         IndexTableMapping_from_dict (PDict []) = Inr (Some m) \<and> itm_key m = PStr [] \<and>
         itm_table_name m = PStr [])
"
  using C1_decode_defaults [where fi = sample_fromisoformat and data = "[]"]
  by (simp add: documents_decodable_def)

section \<open>Timestamps\<close>

lemma SearchResult_from_dict_timestamp:
  assumes "documents_decodable data"
  shows "\<exists>r. SearchResult_from_dict fi (PDict data) = Inr (Some r) \<and>
       (map_of data ''timestamp'' = None \<longrightarrow> sr_timestamp r = None) \<and>
       (\<forall>ts. map_of data ''timestamp'' = Some (PDict ts) \<longrightarrow>
          sr_timestamp r = (if ts = [] then None else parse_datetime fi (dict_get ts ''utc'' PNone))) \<and>
       (\<forall>v. map_of data ''timestamp'' = Some v \<and> (\<forall>ts. v \<noteq> PDict ts) \<longrightarrow>
          sr_timestamp r = (if truthy v then parse_datetime fi v else None))"
proof -
  from SearchResult_documents_decodable [OF assms] obtain docs
    where docs: "SearchResult_documents fi data = Inr docs"
    by blast
  have other: "sr = (if truthy v then parse_datetime fi v else None)"
    if "map_of data ''timestamp'' = Some v" "\<forall>ts. v \<noteq> PDict ts"
       "sr = SearchResult_timestamp fi data" for v sr
    using that by (cases v) (simp_all add: SearchResult_timestamp_def dict_get_present)
  from docs show ?thesis
    by (auto simp: SearchResult_timestamp_def dict_get_missing dict_get_present other)
qed

text \<open>
  Claim C8 says that every entity timestamp field accepts, besides a bare ISO-8601
  string, an envelope-style object with a UTC sub-field. \<open>Collection.from_dict\<close> passes
  \<open>createdUtc\<close> straight to \<open>_parse_datetime\<close>, which returns \<open>None\<close> for a dictionary:
  an envelope holding a timestamp that the parser accepts decodes to \<open>created_utc = None\<close>.
\<close>

theorem C8_counterexample:
  "Collection_from_dict sample_fromisoformat
     (PDict [(''createdUtc'', PDict [(''utc'', PStr ''2024-01-15T10:30:00Z'')])])
   = Inr (Some
     \<lparr> col_id = PStr [], col_name = PStr [], col_description = PNone,
       col_documents_directory = PNone, col_labels = PList [], col_tags = PDict [],
       col_created_utc = None, col_last_update_utc = None,
       col_schema_enforcement_mode = SEM_NONE, col_indexing_mode = IM_ALL \<rparr>)"
  by (simp add: dict_get_def py_or_def lower_def lower_char_def)

text \<open>
  Claim C8, amended. \<open>_parse_datetime\<close> never raises; it gives a string stripped of its
  trailing \<open>Z\<close>s to \<open>fromisoformat\<close> and returns the result, \<open>None\<close> when the string is
  rejected; it returns a \<open>datetime\<close> unchanged, and \<open>None\<close> for \<open>None\<close>, booleans,
  numbers, lists and dictionaries. The timestamp fields of \<open>Collection\<close>, \<open>Document\<close>,
  \<open>Schema\<close>, \<open>SchemaElement\<close>, \<open>FieldConstraint\<close>, \<open>IndexedField\<close> and \<open>ResponseContext\<close>
  are \<open>_parse_datetime\<close> of the wire value (\<open>None\<close> when absent), so they accept a bare
  string only and decode an envelope-style object to \<open>None\<close>. Only
  \<open>SearchResult.timestamp\<close> also accepts the envelope: a non-empty object decodes to
  \<open>_parse_datetime\<close> of its \<open>utc\<close> entry, any other value that is true in Python's sense
  to \<open>_parse_datetime\<close> of it, and an absent or false value to \<open>None\<close>.
\<close>

theorem C8_timestamp_decoding:
  "parse_datetime fi (PStr s) = fi (rstrip (CHR ''Z'') s) \<and>
   parse_datetime fi (PDatetime t) = Some t \<and>
   parse_datetime fi PNone = None \<and>
   parse_datetime fi (PBool b) = None \<and>
   parse_datetime fi (PInt n) = None \<and>
   parse_datetime fi (PFloat w) = None \<and>
   parse_datetime fi (PList xs) = None \<and>
   parse_datetime fi (PDict kvs) = None \<and>
   (\<exists>c. Collection_from_dict fi (PDict data) = Inr (Some c) \<and>
          col_created_utc c = parse_datetime fi (dict_get data ''createdUtc'' PNone) \<and>
          col_last_update_utc c = parse_datetime fi (dict_get data ''lastUpdateUtc'' PNone)) \<and>
      (\<exists>d. Document_from_dict fi (PDict data) = Inr (Some d) \<and>
          doc_created_utc d = parse_datetime fi (dict_get data ''createdUtc'' PNone) \<and>
          doc_last_update_utc d = parse_datetime fi (dict_get data ''lastUpdateUtc'' PNone)) \<and>
      (\<exists>s. Schema_from_dict fi (PDict data) = Inr (Some s) \<and>
          sch_created_utc s = parse_datetime fi (dict_get data ''createdUtc'' PNone) \<and>
          sch_last_update_utc s = parse_datetime fi (dict_get data ''lastUpdateUtc'' PNone)) \<and>
      (\<exists>e. SchemaElement_from_dict fi (PDict data) = Inr (Some e) \<and>
          se_created_utc e = parse_datetime fi (dict_get data ''createdUtc'' PNone) \<and>
          se_last_update_utc e = parse_datetime fi (dict_get data ''lastUpdateUtc'' PNone)) \<and>
      (\<exists>f. FieldConstraint_from_dict fi (PDict data) = Inr (Some f) \<and>
          fc_created_utc f = parse_datetime fi (dict_get data ''createdUtc'' PNone) \<and>
          fc_last_update_utc f = parse_datetime fi (dict_get data ''lastUpdateUtc'' PNone)) \<and>
      (\<exists>i. IndexedField_from_dict fi (PDict data) = Inr (Some i) \<and>
          ixf_created_utc i = parse_datetime fi (dict_get data ''createdUtc'' PNone) \<and>
          ixf_last_update_utc i = parse_datetime fi (dict_get data ''lastUpdateUtc'' PNone)) \<and>
      (\<exists>p. ResponseContext_from_dict fi (PDict data) = Inr (Some p) \<and>
          rc_timestamp_utc p = parse_datetime fi (dict_get data ''timestampUtc'' PNone))
 \<and>
   (documents_decodable data \<longrightarrow>
    (\<exists>r. SearchResult_from_dict fi (PDict data) = Inr (Some r) \<and>
       (map_of data ''timestamp'' = None \<longrightarrow> sr_timestamp r = None) \<and>
       (\<forall>ts. map_of data ''timestamp'' = Some (PDict ts) \<longrightarrow>
          sr_timestamp r = (if ts = [] then None else parse_datetime fi (dict_get ts ''utc'' PNone))) \<and>
       (\<forall>v. map_of data ''timestamp'' = Some v \<and> (\<forall>ts. v \<noteq> PDict ts) \<longrightarrow>
          sr_timestamp r = (if truthy v then parse_datetime fi v else None))))"
  by (intro conjI impI SearchResult_from_dict_timestamp; simp)

text \<open>
  A collection with a bare timestamp and an unparseable one, and a search result with an
  envelope-style timestamp.
\<close>

theorem C8_timestamp_decoding_witness:
  "(\<exists>c. Collection_from_dict sample_fromisoformat
          (PDict [(''createdUtc'', PStr ''2024-01-15T10:30:00Z''),
                  (''lastUpdateUtc'', PStr ''yesterday''),
                  (''timestamp'', PDict [(''utc'', PStr ''2024-01-15T10:30:00Z'')])])
        = Inr (Some c) \<and>
        col_created_utc c = Some sample_datetime \<and> col_last_update_utc c = None) \<and>
   (\<exists>r. SearchResult_from_dict sample_fromisoformat
          (PDict [(''createdUtc'', PStr ''2024-01-15T10:30:00Z''),
                  (''lastUpdateUtc'', PStr ''yesterday''),
                  (''timestamp'', PDict [(''utc'', PStr ''2024-01-15T10:30:00Z'')])])
        = Inr (Some r) \<and>
        sr_timestamp r = Some sample_datetime)"
  using C8_timestamp_decoding [where fi = sample_fromisoformat
      and data = "[(''createdUtc'', PStr ''2024-01-15T10:30:00Z''),
                   (''lastUpdateUtc'', PStr ''yesterday''),
                   (''timestamp'', PDict [(''utc'', PStr ''2024-01-15T10:30:00Z'')])]"]
  by (simp add: documents_decodable_def dict_get_def rstrip_def sample_fromisoformat_def)

end
